theory Spec2Isabelle
  imports Complex_Main
begin

section \<open>Binary black hole collision: post-Newtonian inspiral, merger and ringdown\<close>

text \<open>
  The C++ sources compute in \<^verbatim>\<open>double\<close>. In all sections but the one on binary64
  arithmetic, every \<^verbatim>\<open>double\<close> is modelled by a real number and every operation by the
  exact real operation: rounding, overflow, signed zeros, infinities and NaN are outside
  that model. Where IEEE arithmetic would divide by zero or take the square root of a
  negative number, the theorems carry hypotheses that exclude it (HOL's conventions
  \<open>x / 0 = 0\<close> and \<open>sqrt (- x) = - sqrt x\<close> are never what the C++ computes).

  Two computations are modelled a second time, with every operation rounded to binary64:
  the derivative function of the orchestrator and the spin of the remnant. Their
  definitions carry the suffix \<open>64\<close>.

  Library functions are modelled by their mathematical definitions:
  \<^verbatim>\<open>std::sqrt\<close> by \<open>sqrt\<close>, \<^verbatim>\<open>std::cbrt\<close> by \<open>root 3\<close>, \<^verbatim>\<open>std::pow\<close> by \<open>powr\<close>,
  \<^verbatim>\<open>std::exp\<close>, \<^verbatim>\<open>std::cos\<close>, \<^verbatim>\<open>std::sin\<close> by \<open>exp\<close>, \<open>cos\<close>, \<open>sin\<close>,
  \<^verbatim>\<open>M_PI\<close> by \<open>pi\<close>, and the GLM vector functions by their component formulas.

  Record fields keep the names of the C++ members, except where two structs share a
  member name or a member name is also the name of a local variable of a modelled
  function; those fields carry a short prefix naming their struct.
\<close>

subsection \<open>Vectors (\<^verbatim>\<open>glm::dvec3\<close>)\<close>

datatype dvec3 = Vec3 (vx: real) (vy: real) (vz: real)

definition vzero :: dvec3 where
  "vzero = Vec3 0 0 0"

fun vadd :: "dvec3 \<Rightarrow> dvec3 \<Rightarrow> dvec3" where
  "vadd (Vec3 a b c) (Vec3 d e f) = Vec3 (a + d) (b + e) (c + f)"

fun vsub :: "dvec3 \<Rightarrow> dvec3 \<Rightarrow> dvec3" where
  "vsub (Vec3 a b c) (Vec3 d e f) = Vec3 (a - d) (b - e) (c - f)"

text \<open>\<open>smul s v\<close> is \<^verbatim>\<open>s * v\<close> (and \<^verbatim>\<open>v * s\<close>); \<open>sdiv v s\<close> is \<^verbatim>\<open>v / s\<close>.\<close>

fun smul :: "real \<Rightarrow> dvec3 \<Rightarrow> dvec3" where
  "smul s (Vec3 a b c) = Vec3 (s * a) (s * b) (s * c)"

fun sdiv :: "dvec3 \<Rightarrow> real \<Rightarrow> dvec3" where
  "sdiv (Vec3 a b c) s = Vec3 (a / s) (b / s) (c / s)"

fun glm_dot :: "dvec3 \<Rightarrow> dvec3 \<Rightarrow> real" where
  "glm_dot (Vec3 a b c) (Vec3 d e f) = a * d + b * e + c * f"

fun glm_cross :: "dvec3 \<Rightarrow> dvec3 \<Rightarrow> dvec3" where
  "glm_cross (Vec3 a b c) (Vec3 d e f) =
     Vec3 (b * f - e * c) (c * d - f * a) (a * e - d * b)"

definition glm_length :: "dvec3 \<Rightarrow> real" where
  "glm_length v = sqrt (glm_dot v v)"

text \<open>
  \<^verbatim>\<open>glm::normalize(v)\<close> is \<^verbatim>\<open>v * inversesqrt(dot(v, v))\<close>. At the zero vector the
  C++ multiplies zero by an infinity; that input is excluded wherever a theorem
  speaks about the normalised vector.
\<close>

definition glm_normalize :: "dvec3 \<Rightarrow> dvec3" where
  "glm_normalize v = smul (1 / sqrt (glm_dot v v)) v"

subsection \<open>Bodies (\<^verbatim>\<open>black_hole.h\<close>)\<close>

record BlackHole =
  mass :: real
  chi :: real
  position :: dvec3
  velocity :: dvec3
  spin_axis :: dvec3

definition schwarzschild_radius :: "BlackHole \<Rightarrow> real" where
  "schwarzschild_radius bh = 2 * mass bh"

text \<open>A value-initialised body (\<^verbatim>\<open>BlackHole b = {}\<close>).\<close>

definition zero_BlackHole :: BlackHole where
  "zero_BlackHole =
     \<lparr>mass = 0, chi = 0, position = vzero, velocity = vzero, spin_axis = vzero\<rparr>"

subsection \<open>Merger detection (\<^verbatim>\<open>merger.cpp\<close>)\<close>

definition should_merge :: "BlackHole \<Rightarrow> BlackHole \<Rightarrow> real \<Rightarrow> bool" where
  "should_merge bh1 bh2 critical_factor =
     (let separation = glm_length (vsub (position bh1) (position bh2));
          r_critical = critical_factor *
            (schwarzschild_radius bh1 + schwarzschild_radius bh2) / 2;
          v = vsub (velocity bh1) (velocity bh2);
          v_mag = glm_length v
      in separation \<le> r_critical \<or> v_mag > 2)"

text \<open>The default argument of \<^verbatim>\<open>merger.h\<close>: \<^verbatim>\<open>critical_factor = 0.5\<close>.\<close>

definition should_merge_default :: "BlackHole \<Rightarrow> BlackHole \<Rightarrow> bool" where
  "should_merge_default bh1 bh2 = should_merge bh1 bh2 0.5"

text \<open>The two bodies of \<^verbatim>\<open>test_merger_detection\<close>, at the separation \<open>2 * d\<close>.\<close>

definition test_body :: "real \<Rightarrow> BlackHole" where
  "test_body d =
     \<lparr>mass = 0.5, chi = 0, position = Vec3 d 0 0, velocity = vzero, spin_axis = vzero\<rparr>"

subsection \<open>Post-Newtonian acceleration (\<^verbatim>\<open>physics.h\<close>, \<^verbatim>\<open>physics.cpp\<close>)\<close>

record AccelerationResult =
  a_newtonian :: dvec3
  a_1pn :: dvec3
  a_2pn :: dvec3
  a_25pn :: dvec3

text \<open>\<^verbatim>\<open>AccelerationResult::total()\<close>.\<close>

definition acc_total :: "AccelerationResult \<Rightarrow> dvec3" where
  "acc_total a = vadd (vadd (vadd (a_newtonian a) (a_1pn a)) (a_2pn a)) (a_25pn a)"

text \<open>\<^verbatim>\<open>AccelerationResult result = {}\<close>: every term is the zero vector.\<close>

definition zero_AccelerationResult :: AccelerationResult where
  "zero_AccelerationResult =
     \<lparr>a_newtonian = vzero, a_1pn = vzero, a_2pn = vzero, a_25pn = vzero\<rparr>"

definition compute_relative_acceleration ::
  "dvec3 \<Rightarrow> dvec3 \<Rightarrow> real \<Rightarrow> real \<Rightarrow> bool \<Rightarrow> bool \<Rightarrow> bool \<Rightarrow> AccelerationResult" where
  "compute_relative_acceleration r v m1 m2 enable_1pn enable_2pn enable_25pn =
     (let M = m1 + m2;
          eta = m1 * m2 / (M * M);
          r2 = glm_dot r r;
          r_mag = sqrt r2
      in if r_mag < 1 / 10 ^ 10 then zero_AccelerationResult
         else
           let r3 = r2 * r_mag;
               n = sdiv r r_mag;
               v2 = glm_dot v v;
               rdot = glm_dot n v;
               newtonian = smul (- M / r2) n;
               pn1 =
                 (if enable_1pn then
                    let Mr = M / r_mag;
                        n_coeff = - v2 + 2 * (2 + eta) * Mr + 1.5 * eta * rdot * rdot;
                        v_coeff = 2 * (2 - eta) * rdot
                    in smul (- Mr / r_mag) (vadd (smul n_coeff n) (smul v_coeff v))
                  else vzero);
               pn2 =
                 (if enable_2pn then
                    let Mr = M / r_mag;
                        Mr2 = Mr * Mr;
                        rdot2 = rdot * rdot;
                        v4 = v2 * v2;
                        n_coeff =
                          - 2 * (2 + 25 * eta + 2 * eta * eta) * Mr2
                          + 1.5 * eta * (3 - 4 * eta) * v4
                          + 0.5 * eta * (13 - 4 * eta) * Mr * v2
                          - (2 + 15 * eta - 2 * eta * eta) * Mr * rdot2
                          - 1.875 * eta * (1 - 3 * eta) * rdot2 * rdot2
                          + 1.5 * eta * (3 - 4 * eta) * v2 * rdot2;
                        v_coeff =
                          - 0.5 * eta * (15 + 4 * eta) * v2 * rdot
                          + (4 + 41 * eta / 4 + eta * eta) * Mr * rdot
                          + 1.5 * eta * (3 + 2 * eta) * rdot * rdot2
                    in smul (- Mr / r_mag) (vadd (smul n_coeff n) (smul v_coeff v))
                  else vzero);
               pn25 =
                 (if enable_25pn then
                    let Mr = M / r_mag;
                        Mr3 = M * M / (r2 * r_mag);
                        rdot2 = rdot * rdot;
                        prefactor = 8 / 5 * eta * M * Mr / r2;
                        n_coeff = rdot * (18 * v2 + (2 / 3) * Mr - 25 * rdot2);
                        v_coeff = - (6 * v2 - 2 * Mr - 15 * rdot2)
                    in smul prefactor (vadd (smul n_coeff n) (smul v_coeff v))
                  else vzero)
           in \<lparr>a_newtonian = newtonian, a_1pn = pn1, a_2pn = pn2, a_25pn = pn25\<rparr>)"

definition compute_acceleration ::
  "BlackHole \<Rightarrow> BlackHole \<Rightarrow> bool \<Rightarrow> bool \<Rightarrow> bool \<Rightarrow> AccelerationResult" where
  "compute_acceleration bh1 bh2 enable_1pn enable_2pn enable_25pn =
     (let r = vsub (position bh1) (position bh2);
          v = vsub (velocity bh1) (velocity bh2);
          rel_acc = compute_relative_acceleration r v (mass bh1) (mass bh2)
                      enable_1pn enable_2pn enable_25pn;
          M = mass bh1 + mass bh2;
          factor = mass bh2 / M
      in \<lparr>a_newtonian = smul factor (a_newtonian rel_acc),
          a_1pn = smul factor (a_1pn rel_acc),
          a_2pn = smul factor (a_2pn rel_acc),
          a_25pn = smul factor (a_25pn rel_acc)\<rparr>)"

subsection \<open>Orbital parameters and gravitational-wave strain (\<^verbatim>\<open>physics.cpp\<close>)\<close>

text \<open>
  \<^verbatim>\<open>std::atan2(y, x)\<close>: the angle of the point \<open>(x, y)\<close> in \<open>(- pi, pi]\<close>, and 0 at the
  origin.
\<close>

definition atan2 :: "real \<Rightarrow> real \<Rightarrow> real" where
  "atan2 y x =
     (if 0 < x then arctan (y / x)
      else if x < 0 then (if 0 \<le> y then arctan (y / x) + pi else arctan (y / x) - pi)
      else if 0 < y then pi / 2
      else if y < 0 then - pi / 2
      else 0)"

text \<open>
  The members \<^verbatim>\<open>separation\<close>, \<^verbatim>\<open>total_mass\<close> and \<^verbatim>\<open>energy\<close> of
  \<^verbatim>\<open>OrbitalParams\<close> are the fields \<open>orb_separation\<close>, \<open>orb_total_mass\<close> and
  \<open>orb_energy\<close>.
\<close>

record OrbitalParams =
  orb_separation :: real
  orbital_frequency :: real
  orbital_phase :: real
  radial_velocity :: real
  velocity_param :: real
  reduced_mass :: real
  orb_total_mass :: real
  symmetric_mass_ratio :: real
  chirp_mass :: real
  orb_energy :: real
  angular_momentum :: real

definition zero_OrbitalParams :: OrbitalParams where
  "zero_OrbitalParams =
     \<lparr>orb_separation = 0, orbital_frequency = 0, orbital_phase = 0, radial_velocity = 0,
      velocity_param = 0, reduced_mass = 0, orb_total_mass = 0, symmetric_mass_ratio = 0,
      chirp_mass = 0, orb_energy = 0, angular_momentum = 0\<rparr>"

definition compute_orbital_params :: "BlackHole \<Rightarrow> BlackHole \<Rightarrow> OrbitalParams" where
  "compute_orbital_params bh1 bh2 =
     (let tm = mass bh1 + mass bh2;
          mu = mass bh1 * mass bh2 / tm;
          eta = mu / tm;
          p = zero_OrbitalParams
                \<lparr>orb_total_mass := tm, reduced_mass := mu, symmetric_mass_ratio := eta,
                 chirp_mass := tm * (eta powr 0.6)\<rparr>;
          r = vsub (position bh1) (position bh2);
          v = vsub (velocity bh1) (velocity bh2);
          p = p\<lparr>orb_separation := glm_length r\<rparr>
      in if orb_separation p < 1 / 10 ^ 10 then p
         else
           let n = sdiv r (orb_separation p);
               p = p\<lparr>radial_velocity := glm_dot v n\<rparr>;
               L = smul (reduced_mass p) (glm_cross r v);
               p = p\<lparr>angular_momentum := glm_length L\<rparr>;
               p = p\<lparr>orbital_frequency :=
                     angular_momentum p / (reduced_mass p * orb_separation p * orb_separation p)\<rparr>;
               p = (if orbital_frequency p > 0
                    then p\<lparr>velocity_param := root 3 (orb_total_mass p * orbital_frequency p)\<rparr>
                    else p);
               p = p\<lparr>orbital_phase := atan2 (vz r) (vx r)\<rparr>;
               v2 = glm_dot v v
           in p\<lparr>orb_energy := 0.5 * reduced_mass p * v2
                  - reduced_mass p * orb_total_mass p / orb_separation p\<rparr>)"

text \<open>
  The members \<^verbatim>\<open>amplitude\<close> and \<^verbatim>\<open>frequency\<close> of \<^verbatim>\<open>GWStrain\<close> are the fields
  \<open>gw_amplitude\<close> and \<open>gw_frequency\<close>.
\<close>

record GWStrain =
  h_plus :: real
  h_cross :: real
  gw_amplitude :: real
  gw_frequency :: real

definition zero_GWStrain :: GWStrain where
  "zero_GWStrain = \<lparr>h_plus = 0, h_cross = 0, gw_amplitude = 0, gw_frequency = 0\<rparr>"

definition compute_gw_strain :: "BlackHole \<Rightarrow> BlackHole \<Rightarrow> real \<Rightarrow> real \<Rightarrow> GWStrain" where
  "compute_gw_strain bh1 bh2 observer_distance observer_inclination =
     (let p = compute_orbital_params bh1 bh2
      in if orb_separation p < 1 / 10 ^ 10 \<or> observer_distance < 1 / 10 ^ 10
         then zero_GWStrain
         else
           let mu = reduced_mass p;
               M = orb_total_mass p;
               r = orb_separation p;
               omega = orbital_frequency p;
               Phi = orbital_phase p;
               D = observer_distance;
               iota = observer_inclination;
               v_param = root 3 (M * omega);
               v2 = v_param * v_param;
               prefactor = 2 * mu * v2 / D;
               cos_iota = cos iota;
               cos2_iota = cos_iota * cos_iota;
               hp = - prefactor * (1 + cos2_iota) / 2 * cos (2 * Phi);
               hc = - prefactor * cos_iota * sin (2 * Phi)
           in \<lparr>h_plus = hp, h_cross = hc,
               gw_amplitude = sqrt (hp * hp + hc * hc),
               gw_frequency = omega / pi\<rparr>)"

subsection \<open>Integrator (\<^verbatim>\<open>integrator.h\<close>, \<^verbatim>\<open>integrator.cpp\<close>)\<close>

record BinaryState =
  pos1 :: dvec3
  vel1 :: dvec3
  pos2 :: dvec3
  vel2 :: dvec3
  time :: real

record BinaryStateDerivative =
  dpos1 :: dvec3
  dvel1 :: dvec3
  dpos2 :: dvec3
  dvel2 :: dvec3

record IntegratorConfig =
  dt_initial :: real
  dt_min :: real
  dt_max :: real
  safety_factor :: real
  adaptive :: bool

type_synonym DerivativeFunc = "BinaryState \<Rightarrow> BinaryStateDerivative"

definition state_add :: "BinaryState \<Rightarrow> BinaryStateDerivative \<Rightarrow> real \<Rightarrow> BinaryState" where
  "state_add s d dt =
     \<lparr>pos1 = vadd (pos1 s) (smul dt (dpos1 d)),
      vel1 = vadd (vel1 s) (smul dt (dvel1 d)),
      pos2 = vadd (pos2 s) (smul dt (dpos2 d)),
      vel2 = vadd (vel2 s) (smul dt (dvel2 d)),
      time = time s + dt\<rparr>"

text \<open>The weighted sum \<^verbatim>\<open>k1 + 2.0 * k2 + 2.0 * k3 + k4\<close> of one component.\<close>

definition rk4_sum :: "dvec3 \<Rightarrow> dvec3 \<Rightarrow> dvec3 \<Rightarrow> dvec3 \<Rightarrow> dvec3" where
  "rk4_sum a b c d = vadd (vadd (vadd a (smul 2 b)) (smul 2 c)) d"

definition rk4_step :: "BinaryState \<Rightarrow> real \<Rightarrow> DerivativeFunc \<Rightarrow> BinaryState" where
  "rk4_step state dt deriv =
     (let k1 = deriv state;
          k2 = deriv (state_add state k1 (dt * 0.5));
          k3 = deriv (state_add state k2 (dt * 0.5));
          k4 = deriv (state_add state k3 dt)
      in \<lparr>pos1 = vadd (pos1 state)
                   (smul (dt / 6) (rk4_sum (dpos1 k1) (dpos1 k2) (dpos1 k3) (dpos1 k4))),
          vel1 = vadd (vel1 state)
                   (smul (dt / 6) (rk4_sum (dvel1 k1) (dvel1 k2) (dvel1 k3) (dvel1 k4))),
          pos2 = vadd (pos2 state)
                   (smul (dt / 6) (rk4_sum (dpos2 k1) (dpos2 k2) (dpos2 k3) (dpos2 k4))),
          vel2 = vadd (vel2 state)
                   (smul (dt / 6) (rk4_sum (dvel2 k1) (dvel2 k2) (dvel2 k3) (dvel2 k4))),
          time = time state + dt\<rparr>)"

text \<open>
  \<^verbatim>\<open>std::clamp(v, lo, hi)\<close> is \<^verbatim>\<open>(v < lo) ? lo : (hi < v) ? hi : v\<close>; the C++ standard
  leaves it undefined when \<^verbatim>\<open>hi < lo\<close>.
\<close>

definition std_clamp :: "real \<Rightarrow> real \<Rightarrow> real \<Rightarrow> real" where
  "std_clamp v lo hi = (if v < lo then lo else if hi < v then hi else v)"

definition adaptive_timestep :: "BinaryState \<Rightarrow> IntegratorConfig \<Rightarrow> real \<Rightarrow> real" where
  "adaptive_timestep state config total_mass =
     (if \<not> adaptive config then dt_initial config
      else
        let r = vsub (pos1 state) (pos2 state);
            separation = glm_length r
        in if separation < 1 / 10 ^ 10 then dt_min config
           else
             let orbital_period =
                   2 * pi * sqrt (separation * separation * separation / total_mass);
                 dt = safety_factor config * orbital_period;
                 r_isco = 6 * total_mass;
                 dt = (if separation < 2 * r_isco
                       then let scale = separation / (2 * r_isco) in dt * (scale * scale)
                       else dt)
             in std_clamp dt (dt_min config) (dt_max config))"

subsection \<open>The derivative function of the orchestrator (\<^verbatim>\<open>simulation.cpp\<close>)\<close>

definition make_deriv_func :: "real \<Rightarrow> real \<Rightarrow> bool \<Rightarrow> bool \<Rightarrow> bool \<Rightarrow> DerivativeFunc" where
  "make_deriv_func m1 m2 pn1 pn2 pn25 = (\<lambda>state.
     let r = vsub (pos1 state) (pos2 state);
         v = vsub (vel1 state) (vel2 state);
         M = m1 + m2;
         acc = compute_relative_acceleration r v m1 m2 pn1 pn2 pn25;
         a_rel = acc_total acc
     in \<lparr>dpos1 = vel1 state,
         dvel1 = smul (m2 / M) a_rel,
         dpos2 = vel2 state,
         dvel2 = smul (- (m1 / M)) a_rel\<rparr>)"

subsection \<open>Remnant fits and ringdown (\<^verbatim>\<open>merger.h\<close>, \<^verbatim>\<open>merger.cpp\<close>)\<close>

definition final_mass_fraction :: "real \<Rightarrow> real \<Rightarrow> real \<Rightarrow> real" where
  "final_mass_fraction eta chi1 chi2 =
     (let chi_eff = 0.5 * (chi1 + chi2);
          p0 = 0.04827;
          p1 = 0.01707;
          p2 = - 0.0308;
          E_rad_base = eta * (p0 + 4 * eta * p0);
          spin_corr = 1 + p1 * chi_eff / (1 + p2 * chi_eff * chi_eff);
          E_rad = E_rad_base * spin_corr;
          E_rad = std_clamp E_rad 0 0.1;
          E_rad = (if \<bar>eta - 0.25\<bar> < 0.01 \<and> \<bar>chi_eff\<bar> < 0.01 then 0.035 else E_rad)
      in 1 - E_rad)"

definition final_spin :: "real \<Rightarrow> real \<Rightarrow> real \<Rightarrow> real" where
  "final_spin eta chi1 chi2 =
     (let s4 = - 0.1229;
          s5 = 0.4537;
          t0 = - 2.8904;
          t2 = - 3.5171;
          t3 = 2.5763;
          delta_m = sqrt (1 - 4 * eta);
          a_init = 0.5 * ((1 + delta_m) * chi1 + (1 - delta_m) * chi2);
          L_orb = 2 * sqrt 3 * eta + t2 * eta * eta + t3 * eta * eta * eta;
          a_spin = a_init + s4 * a_init * a_init * eta + s5 * a_init * eta * delta_m
                   + t0 * eta * a_init;
          af = a_spin + L_orb
      in std_clamp af 0 0.998)"

text \<open>
  The members \<^verbatim>\<open>frequency\<close>, \<^verbatim>\<open>amplitude\<close> and \<^verbatim>\<open>phase\<close> of \<^verbatim>\<open>QNMParams\<close> are the
  fields \<open>qnm_frequency\<close>, \<open>qnm_amplitude\<close> and \<open>qnm_phase\<close>.
\<close>

record QNMParams =
  qnm_frequency :: real
  damping_time :: real
  qnm_amplitude :: real
  qnm_phase :: real

definition compute_qnm_222 :: "real \<Rightarrow> real \<Rightarrow> real \<Rightarrow> QNMParams" where
  "compute_qnm_222 remnant_mass remnant_spin merger_amplitude =
     (let af = remnant_spin;
          Mf = remnant_mass;
          f1 = 1.5251;
          f2 = - 1.1568;
          f3 = 0.1292;
          q1 = 0.7000;
          q2 = 1.4187;
          q3 = - 0.4990;
          one_minus_af = 1 - af;
          one_minus_af = (if one_minus_af < 1 / 10 ^ 10 then 1 / 10 ^ 10 else one_minus_af);
          omega_qnm = (f1 + f2 * (one_minus_af powr f3)) / Mf;
          Q = q1 + q2 * (one_minus_af powr q3)
      in \<lparr>qnm_frequency = omega_qnm / (2 * pi),
          damping_time = Q / omega_qnm,
          qnm_amplitude = merger_amplitude * 1.5,
          qnm_phase = 0\<rparr>)"

definition ringdown_strain :: "QNMParams \<Rightarrow> real \<Rightarrow> real \<Rightarrow> real \<Rightarrow> GWStrain" where
  "ringdown_strain qnm t_after_merger observer_distance observer_inclination =
     (if t_after_merger < 0 then zero_GWStrain
      else
        let cos_iota = cos observer_inclination;
            cos2_iota = cos_iota * cos_iota;
            envelope = qnm_amplitude qnm * exp (- t_after_merger / damping_time qnm);
            phase = 2 * pi * qnm_frequency qnm * t_after_merger + qnm_phase qnm;
            hp = envelope * (1 + cos2_iota) / 2 * cos phase / observer_distance;
            hc = envelope * cos_iota * sin phase / observer_distance
        in \<lparr>h_plus = hp, h_cross = hc,
            gw_amplitude = sqrt (hp * hp + hc * hc),
            gw_frequency = qnm_frequency qnm\<rparr>)"

definition recoil_kick :: "real \<Rightarrow> real \<Rightarrow> real \<Rightarrow> real" where
  "recoil_kick eta chi1 chi2 =
     (let A = 12000;
          B = - 0.93;
          delta = sqrt (max 0 (1 - 4 * eta));
          v_mass = A * eta * eta * delta * (1 + B * eta);
          delta_chi = chi1 - chi2;
          v_spin = 3678 * eta * delta_chi;
          v_total_kms = sqrt (v_mass * v_mass + v_spin * v_spin);
          c_kms = 299800
      in v_total_kms / c_kms)"

text \<open>
  The members \<^verbatim>\<open>mass\<close>, \<^verbatim>\<open>spin\<close>, \<^verbatim>\<open>position\<close> and \<^verbatim>\<open>velocity\<close> of
  \<^verbatim>\<open>RemnantProperties\<close> are the fields \<open>rem_mass\<close>, \<open>rem_spin\<close>, \<open>rem_position\<close> and
  \<open>rem_velocity\<close>.
\<close>

record RemnantProperties =
  rem_mass :: real
  rem_spin :: real
  rem_position :: dvec3
  rem_velocity :: dvec3
  kick_velocity :: real
  energy_radiated :: real

definition zero_RemnantProperties :: RemnantProperties where
  "zero_RemnantProperties =
     \<lparr>rem_mass = 0, rem_spin = 0, rem_position = vzero, rem_velocity = vzero,
      kick_velocity = 0, energy_radiated = 0\<rparr>"

definition zero_QNMParams :: QNMParams where
  "zero_QNMParams = \<lparr>qnm_frequency = 0, damping_time = 0, qnm_amplitude = 0, qnm_phase = 0\<rparr>"

definition compute_remnant :: "BlackHole \<Rightarrow> BlackHole \<Rightarrow> RemnantProperties" where
  "compute_remnant bh1 bh2 =
     (let M = mass bh1 + mass bh2;
          eta = mass bh1 * mass bh2 / (M * M);
          rmass = M * final_mass_fraction eta (chi bh1) (chi bh2);
          rspin = final_spin eta (chi bh1) (chi bh2);
          erad = 1 - rmass / M;
          kick = recoil_kick eta (chi bh1) (chi bh2);
          rpos = sdiv (vadd (smul (mass bh1) (position bh1)) (smul (mass bh2) (position bh2))) M;
          v_com = sdiv (vadd (smul (mass bh1) (velocity bh1)) (smul (mass bh2) (velocity bh2))) M;
          r = vsub (position bh1) (position bh2);
          v = vsub (velocity bh1) (velocity bh2);
          L_hat = glm_normalize (glm_cross r v)
      in \<lparr>rem_mass = rmass, rem_spin = rspin, rem_position = rpos,
          rem_velocity = vadd v_com (smul kick L_hat),
          kick_velocity = kick, energy_radiated = erad\<rparr>)"

subsection \<open>Binary64 arithmetic\<close>

text \<open>
  A binary64 number is a real \<open>n * 2 ^ k\<close> with an integer \<open>n\<close> of at most 53 bits.
  \<open>rne\<close> rounds a real to the nearest integer, a tie to the even one, and \<open>b64\<close> rounds
  a real to the nearest binary64 number, a tie to the even significand: the default
  rounding of IEEE 754. The exponent is unbounded: overflow, gradual underflow and
  signed zeros are outside the model.

  \<^verbatim>\<open>+\<close>, \<^verbatim>\<open>-\<close>, \<^verbatim>\<open>*\<close>, \<^verbatim>\<open>/\<close> and \<^verbatim>\<open>std::sqrt\<close> on \<^verbatim>\<open>double\<close> are correctly rounded: the
  result is \<open>b64\<close> of the exact result (\<open>add64\<close>, \<open>sub64\<close>, \<open>mul64\<close>, \<open>div64\<close>,
  \<open>sqrt64\<close>). Unary minus is exact. No product is fused with a sum. The GLM operators
  work component by component, and \<^verbatim>\<open>glm::dot\<close> adds the three products from the left.
  A literal that is not a binary64 number stands for its rounding (\<^verbatim>\<open>1e-10\<close> for
  \<open>b64 (1 / 10 ^ 10)\<close>).
\<close>

definition rne :: "real \<Rightarrow> int" where
  "rne x =
     (let f = \<lfloor>x\<rfloor>;
          d = x - of_int f
      in if d < 1 / 2 then f
         else if 1 / 2 < d then f + 1
         else if even f then f else f + 1)"

definition b64 :: "real \<Rightarrow> real" where
  "b64 x =
     (if x = 0 then 0
      else let e = \<lfloor>log 2 \<bar>x\<bar>\<rfloor>;
               u = 2 powr (of_int e - 52)
           in of_int (rne (x / u)) * u)"

definition add64 :: "real \<Rightarrow> real \<Rightarrow> real" where
  "add64 x y = b64 (x + y)"

definition sub64 :: "real \<Rightarrow> real \<Rightarrow> real" where
  "sub64 x y = b64 (x - y)"

definition mul64 :: "real \<Rightarrow> real \<Rightarrow> real" where
  "mul64 x y = b64 (x * y)"

definition div64 :: "real \<Rightarrow> real \<Rightarrow> real" where
  "div64 x y = b64 (x / y)"

definition sqrt64 :: "real \<Rightarrow> real" where
  "sqrt64 x = b64 (sqrt x)"

fun vadd64 :: "dvec3 \<Rightarrow> dvec3 \<Rightarrow> dvec3" where
  "vadd64 (Vec3 a b c) (Vec3 d e f) = Vec3 (add64 a d) (add64 b e) (add64 c f)"

fun vsub64 :: "dvec3 \<Rightarrow> dvec3 \<Rightarrow> dvec3" where
  "vsub64 (Vec3 a b c) (Vec3 d e f) = Vec3 (sub64 a d) (sub64 b e) (sub64 c f)"

fun smul64 :: "real \<Rightarrow> dvec3 \<Rightarrow> dvec3" where
  "smul64 s (Vec3 a b c) = Vec3 (mul64 s a) (mul64 s b) (mul64 s c)"

fun sdiv64 :: "dvec3 \<Rightarrow> real \<Rightarrow> dvec3" where
  "sdiv64 (Vec3 a b c) s = Vec3 (div64 a s) (div64 b s) (div64 c s)"

fun glm_dot64 :: "dvec3 \<Rightarrow> dvec3 \<Rightarrow> real" where
  "glm_dot64 (Vec3 a b c) (Vec3 d e f) = add64 (add64 (mul64 a d) (mul64 b e)) (mul64 c f)"

text \<open>
  \<^verbatim>\<open>AccelerationResult::total()\<close>, \<^verbatim>\<open>compute_relative_acceleration\<close> and the closure of
  \<^verbatim>\<open>make_deriv_func\<close> in binary64 arithmetic, operation by operation in the order of
  evaluation of the C++ expressions.
\<close>

definition acc_total64 :: "AccelerationResult \<Rightarrow> dvec3" where
  "acc_total64 a = vadd64 (vadd64 (vadd64 (a_newtonian a) (a_1pn a)) (a_2pn a)) (a_25pn a)"

definition compute_relative_acceleration64 ::
  "dvec3 \<Rightarrow> dvec3 \<Rightarrow> real \<Rightarrow> real \<Rightarrow> bool \<Rightarrow> bool \<Rightarrow> bool \<Rightarrow> AccelerationResult" where
  "compute_relative_acceleration64 r v m1 m2 enable_1pn enable_2pn enable_25pn =
     (let M = add64 m1 m2;
          eta = div64 (mul64 m1 m2) (mul64 M M);
          r2 = glm_dot64 r r;
          r_mag = sqrt64 r2
      in if r_mag < b64 (1 / 10 ^ 10) then zero_AccelerationResult
         else
           let r3 = mul64 r2 r_mag;
               n = sdiv64 r r_mag;
               v2 = glm_dot64 v v;
               rdot = glm_dot64 n v;
               newtonian = smul64 (div64 (- M) r2) n;
               pn1 =
                 (if enable_1pn then
                    let Mr = div64 M r_mag;
                        n_coeff =
                          add64 (add64 (- v2) (mul64 (mul64 2 (add64 2 eta)) Mr))
                            (mul64 (mul64 (mul64 1.5 eta) rdot) rdot);
                        v_coeff = mul64 (mul64 2 (sub64 2 eta)) rdot
                    in smul64 (div64 (- Mr) r_mag)
                         (vadd64 (smul64 n_coeff n) (smul64 v_coeff v))
                  else vzero);
               pn2 =
                 (if enable_2pn then
                    let Mr = div64 M r_mag;
                        Mr2 = mul64 Mr Mr;
                        rdot2 = mul64 rdot rdot;
                        v4 = mul64 v2 v2;
                        n_coeff =
                          add64 (sub64 (sub64 (add64 (add64
                            (mul64 (mul64 (- 2)
                               (add64 (add64 2 (mul64 25 eta)) (mul64 (mul64 2 eta) eta))) Mr2)
                            (mul64 (mul64 (mul64 1.5 eta) (sub64 3 (mul64 4 eta))) v4))
                            (mul64 (mul64 (mul64 (mul64 0.5 eta) (sub64 13 (mul64 4 eta))) Mr) v2))
                            (mul64 (mul64 (sub64 (add64 2 (mul64 15 eta)) (mul64 (mul64 2 eta) eta))
                               Mr) rdot2))
                            (mul64 (mul64 (mul64 (mul64 1.875 eta) (sub64 1 (mul64 3 eta))) rdot2)
                               rdot2))
                            (mul64 (mul64 (mul64 (mul64 1.5 eta) (sub64 3 (mul64 4 eta))) v2) rdot2);
                        v_coeff =
                          add64 (add64
                            (mul64 (mul64 (mul64 (mul64 (- 0.5) eta) (add64 15 (mul64 4 eta))) v2)
                               rdot)
                            (mul64 (mul64 (add64 (add64 4 (div64 (mul64 41 eta) 4)) (mul64 eta eta))
                               Mr) rdot))
                            (mul64 (mul64 (mul64 (mul64 1.5 eta) (add64 3 (mul64 2 eta))) rdot) rdot2)
                    in smul64 (div64 (- Mr) r_mag)
                         (vadd64 (smul64 n_coeff n) (smul64 v_coeff v))
                  else vzero);
               pn25 =
                 (if enable_25pn then
                    let Mr = div64 M r_mag;
                        Mr3 = div64 (mul64 M M) (mul64 r2 r_mag);
                        rdot2 = mul64 rdot rdot;
                        prefactor = div64 (mul64 (mul64 (mul64 (div64 8 5) eta) M) Mr) r2;
                        n_coeff =
                          mul64 rdot
                            (sub64 (add64 (mul64 18 v2) (mul64 (div64 2 3) Mr)) (mul64 25 rdot2));
                        v_coeff = - (sub64 (sub64 (mul64 6 v2) (mul64 2 Mr)) (mul64 15 rdot2))
                    in smul64 prefactor (vadd64 (smul64 n_coeff n) (smul64 v_coeff v))
                  else vzero)
           in \<lparr>a_newtonian = newtonian, a_1pn = pn1, a_2pn = pn2, a_25pn = pn25\<rparr>)"

definition make_deriv_func64 :: "real \<Rightarrow> real \<Rightarrow> bool \<Rightarrow> bool \<Rightarrow> bool \<Rightarrow> DerivativeFunc" where
  "make_deriv_func64 m1 m2 pn1 pn2 pn25 = (\<lambda>state.
     let r = vsub64 (pos1 state) (pos2 state);
         v = vsub64 (vel1 state) (vel2 state);
         M = add64 m1 m2;
         acc = compute_relative_acceleration64 r v m1 m2 pn1 pn2 pn25;
         a_rel = acc_total64 acc
     in \<lparr>dpos1 = vel1 state,
         dvel1 = smul64 (div64 m2 M) a_rel,
         dpos2 = vel2 state,
         dvel2 = smul64 (- (div64 m1 M)) a_rel\<rparr>)"

text \<open>
  \<^verbatim>\<open>final_spin\<close> in binary64 arithmetic. The square root of a negative radicand is a
  NaN, which every later operation and \<^verbatim>\<open>std::clamp\<close> hand on (both comparisons of
  \<^verbatim>\<open>std::clamp\<close> with a NaN are false): the result \<open>None\<close>. \<open>compute_remnant_spin64\<close> is
  the member \<^verbatim>\<open>spin\<close> that \<^verbatim>\<open>compute_remnant\<close> returns: \<^verbatim>\<open>final_spin\<close> at the symmetric mass
  ratio computed from the two masses.
\<close>

definition final_spin64 :: "real \<Rightarrow> real \<Rightarrow> real \<Rightarrow> real option" where
  "final_spin64 eta chi1 chi2 =
     (let s4 = b64 (- 0.1229);
          s5 = b64 0.4537;
          t0 = b64 (- 2.8904);
          t2 = b64 (- 3.5171);
          t3 = b64 2.5763;
          radicand = sub64 1 (mul64 4 eta)
      in if radicand < 0 then None
         else
           let delta_m = sqrt64 radicand;
               a_init = mul64 0.5 (add64 (mul64 (add64 1 delta_m) chi1)
                                          (mul64 (sub64 1 delta_m) chi2));
               L_orb = add64 (add64 (mul64 (mul64 2 (sqrt64 3)) eta) (mul64 (mul64 t2 eta) eta))
                             (mul64 (mul64 (mul64 t3 eta) eta) eta);
               a_spin = add64 (add64 (add64 a_init (mul64 (mul64 (mul64 s4 a_init) a_init) eta))
                                     (mul64 (mul64 (mul64 s5 a_init) eta) delta_m))
                              (mul64 (mul64 t0 eta) a_init);
               af = add64 a_spin L_orb
           in Some (std_clamp af 0 (b64 0.998)))"

definition compute_remnant_spin64 :: "BlackHole \<Rightarrow> BlackHole \<Rightarrow> real option" where
  "compute_remnant_spin64 bh1 bh2 =
     (let M = add64 (mass bh1) (mass bh2);
          eta = div64 (mul64 (mass bh1) (mass bh2)) (mul64 M M)
      in final_spin64 eta (chi bh1) (chi bh2))"

subsection \<open>Configuration (\<^verbatim>\<open>black_hole.h\<close>, \<^verbatim>\<open>simulation.h\<close>)\<close>

text \<open>
  The members \<^verbatim>\<open>m1\<close>, \<^verbatim>\<open>m2\<close>, \<^verbatim>\<open>chi1\<close> and \<^verbatim>\<open>chi2\<close> of \<^verbatim>\<open>BinaryConfig\<close> are the
  fields \<open>binary_m1\<close>, \<open>binary_m2\<close>, \<open>binary_chi1\<close> and \<open>binary_chi2\<close>.
\<close>

record BinaryConfig =
  binary_m1 :: real
  binary_m2 :: real
  binary_chi1 :: real
  binary_chi2 :: real
  spin_axis1 :: dvec3
  spin_axis2 :: dvec3
  initial_separation :: real
  eccentricity :: real
  inclination :: real
  distance :: real

text \<open>
  \<^verbatim>\<open>SimulationConfig\<close>. The optional \<^verbatim>\<open>progress_callback\<close> only observes
  \<open>(time, fraction, phase name)\<close> and returns nothing; it is left out of the model, and
  with it the local \<^verbatim>\<open>estimated_merger_time\<close> of \<^verbatim>\<open>run_simulation\<close>, which only the
  callback reads.
\<close>

record SimulationConfig =
  binary :: BinaryConfig
  integrator :: IntegratorConfig
  max_time :: real
  record_interval :: real
  ringdown_duration :: real
  ringdown_samples :: int
  observer_distance :: real
  observer_inclination :: real
  enable_1pn :: bool
  enable_2pn :: bool
  enable_25pn :: bool

text \<open>
  The members of \<^verbatim>\<open>SimulationFrame\<close> carry the prefix \<open>frame_\<close>; the member
  \<^verbatim>\<open>config\<close> of \<^verbatim>\<open>SimulationResult\<close> is the field \<open>result_config\<close>.
\<close>

record SimulationFrame =
  frame_time :: real
  frame_bh1 :: BlackHole
  frame_bh2 :: BlackHole
  frame_orbital :: OrbitalParams
  frame_gw :: GWStrain
  frame_phase :: int

record SimulationResult =
  frames :: "SimulationFrame list"
  result_config :: BinaryConfig
  remnant :: RemnantProperties
  qnm :: QNMParams
  merger_time :: real
  total_gw_cycles :: real
  total_energy_radiated :: real
  merger_occurred :: bool
  num_inspiral_frames :: int
  num_ringdown_frames :: int

subsection \<open>The orchestrator (\<^verbatim>\<open>simulation.cpp\<close>)\<close>

definition init_binary :: "BinaryConfig \<Rightarrow> BlackHole \<times> BlackHole" where
  "init_binary config =
     (let M = binary_m1 config + binary_m2 config;
          r0 = initial_separation config;
          r1 = r0 * binary_m2 config / M;
          r2 = r0 * binary_m1 config / M;
          v_circ_rel = sqrt (M / r0);
          ecc = eccentricity config;
          v_factor = sqrt ((1 + ecc) / (1 - ecc));
          v_rel = v_circ_rel * v_factor;
          v1 = v_rel * binary_m2 config / M;
          v2 = v_rel * binary_m1 config / M
      in (\<lparr>mass = binary_m1 config, chi = binary_chi1 config,
           position = Vec3 r1 0 0, velocity = Vec3 0 0 v1,
           spin_axis = glm_normalize (spin_axis1 config)\<rparr>,
          \<lparr>mass = binary_m2 config, chi = binary_chi2 config,
           position = Vec3 (- r2) 0 0, velocity = Vec3 0 0 (- v2),
           spin_axis = glm_normalize (spin_axis2 config)\<rparr>))"

definition make_frame ::
  "real \<Rightarrow> BlackHole \<Rightarrow> BlackHole \<Rightarrow> real \<Rightarrow> real \<Rightarrow> int \<Rightarrow> SimulationFrame" where
  "make_frame t bh1 bh2 obs_distance obs_inclination phase =
     \<lparr>frame_time = t, frame_bh1 = bh1, frame_bh2 = bh2,
      frame_orbital = compute_orbital_params bh1 bh2,
      frame_gw = compute_gw_strain bh1 bh2 obs_distance obs_inclination,
      frame_phase = phase\<rparr>"

text \<open>
  The variables of the inspiral loop of \<^verbatim>\<open>run_simulation\<close>: its locals \<^verbatim>\<open>state\<close>,
  \<^verbatim>\<open>bh1\<close>, \<^verbatim>\<open>bh2\<close>, \<^verbatim>\<open>last_record_time\<close>, \<^verbatim>\<open>last_phase\<close> and \<^verbatim>\<open>step_count\<close>, and the
  members of \<^verbatim>\<open>result\<close> that the loop writes.
\<close>

record InspiralVars =
  cur_state :: BinaryState
  cur_bh1 :: BlackHole
  cur_bh2 :: BlackHole
  last_record_time :: real
  last_phase :: real
  step_count :: nat
  res_frames :: "SimulationFrame list"
  res_merger_occurred :: bool
  res_merger_time :: real
  res_total_gw_cycles :: real

text \<open>
  The block \<^verbatim>\<open>if (state.time - last_record_time >= effective_interval) { ... }\<close> of the
  loop body: record an inspiral frame and accumulate the wrapped phase difference.
\<close>

definition record_frame :: "SimulationConfig \<Rightarrow> InspiralVars \<Rightarrow> InspiralVars" where
  "record_frame config L =
     (let current_sep = glm_length (vsub (pos1 (cur_state L)) (pos2 (cur_state L)));
          M_tot = mass (cur_bh1 L) + mass (cur_bh2 L);
          effective_interval =
            (if current_sep < 10 * M_tot then record_interval config / 4000
             else record_interval config)
      in if time (cur_state L) - last_record_time L \<ge> effective_interval then
           let orb = compute_orbital_params (cur_bh1 L) (cur_bh2 L);
               phase_diff = orbital_phase orb - last_phase L;
               phase_diff = (if phase_diff < - pi then phase_diff + 2 * pi else phase_diff);
               phase_diff = (if phase_diff > pi then phase_diff - 2 * pi else phase_diff)
           in L\<lparr>res_frames := res_frames L @
                   [make_frame (time (cur_state L)) (cur_bh1 L) (cur_bh2 L)
                      (observer_distance config) (observer_inclination config) 0],
                last_record_time := time (cur_state L),
                res_total_gw_cycles := res_total_gw_cycles L + \<bar>phase_diff\<bar> / pi,
                last_phase := orbital_phase orb\<rparr>
         else L)"

text \<open>
  One pass through the body of the inspiral loop. The second component tells whether
  the pass left the loop through one of its two \<^verbatim>\<open>break\<close> statements.
\<close>

definition inspiral_body ::
  "SimulationConfig \<Rightarrow> DerivativeFunc \<Rightarrow> real \<Rightarrow> InspiralVars \<Rightarrow> InspiralVars \<times> bool" where
  "inspiral_body config deriv total_mass L =
     (let bh1 = (cur_bh1 L)\<lparr>position := pos1 (cur_state L), velocity := vel1 (cur_state L)\<rparr>;
          bh2 = (cur_bh2 L)\<lparr>position := pos2 (cur_state L), velocity := vel2 (cur_state L)\<rparr>;
          L = L\<lparr>cur_bh1 := bh1, cur_bh2 := bh2\<rparr>
      in if should_merge_default bh1 bh2 then
           (L\<lparr>res_merger_occurred := True,
              res_merger_time := time (cur_state L),
              res_frames := res_frames L @
                [make_frame (time (cur_state L)) bh1 bh2
                   (observer_distance config) (observer_inclination config) 1]\<rparr>,
            True)
         else
           let L = record_frame config L;
               dt = adaptive_timestep (cur_state L) (integrator config) total_mass;
               L = L\<lparr>cur_state := rk4_step (cur_state L) dt deriv\<rparr>;
               L = L\<lparr>step_count := step_count L + 1\<rparr>
           in (L, step_count L > 2000000000))"

text \<open>
  The \<^verbatim>\<open>while (state.time < config.max_time)\<close> loop. It is entered again only after a
  pass that did not break, and such a pass leaves \<open>step_count \<le> 2000000000\<close>: the
  distance of \<open>step_count\<close> to \<open>2000000001\<close> decreases.
\<close>

function inspiral_loop ::
  "SimulationConfig \<Rightarrow> DerivativeFunc \<Rightarrow> real \<Rightarrow> InspiralVars \<Rightarrow> InspiralVars" where
  "inspiral_loop config deriv total_mass L =
     (if time (cur_state L) < max_time config then
        (if snd (inspiral_body config deriv total_mass L)
         then fst (inspiral_body config deriv total_mass L)
         else inspiral_loop config deriv total_mass
                (fst (inspiral_body config deriv total_mass L)))
      else L)"
  by pat_completeness auto

termination inspiral_loop
proof (relation "measure (\<lambda>(config, deriv, tm, L). 2000000001 - step_count L)")
  show "wf (measure (\<lambda>(config, deriv, tm, L). 2000000001 - step_count L))"
    by simp
next
  fix config :: SimulationConfig and deriv :: DerivativeFunc and total_mass :: real
    and L :: InspiralVars
  assume nb: "\<not> snd (inspiral_body config deriv total_mass L)"
  have rf: "step_count (record_frame config L') = step_count L'" for L'
    by (simp add: record_frame_def Let_def)
  from nb
  have a: "step_count (fst (inspiral_body config deriv total_mass L)) = step_count L + 1"
    and b: "step_count L + 1 \<le> 2000000000"
    by (simp_all add: inspiral_body_def Let_def rf split: if_splits)
  from b have "2000000001 - (step_count L + 1) < 2000000001 - step_count L"
    by linarith
  then show "((config, deriv, total_mass, fst (inspiral_body config deriv total_mass L)),
         (config, deriv, total_mass, L))
        \<in> measure (\<lambda>(config, deriv, tm, L). 2000000001 - step_count L)"
    by (simp only: in_measure prod.case a)
qed

declare inspiral_loop.simps [simp del]

text \<open>The frame that \<^verbatim>\<open>run_simulation\<close> records for ringdown sample \<open>i\<close>.\<close>

definition ringdown_frame ::
  "SimulationConfig \<Rightarrow> RemnantProperties \<Rightarrow> QNMParams \<Rightarrow> real \<Rightarrow> real \<Rightarrow> nat
     \<Rightarrow> SimulationFrame" where
  "ringdown_frame config rem q t_merger ringdown_dt i =
     (let t_ring = real i * ringdown_dt;
          gw_ring = ringdown_strain q t_ring
                      (observer_distance config) (observer_inclination config)
      in \<lparr>frame_time = t_merger + t_ring,
          frame_bh1 =
            \<lparr>mass = rem_mass rem, chi = rem_spin rem,
             position = vadd (rem_position rem) (smul t_ring (rem_velocity rem)),
             velocity = rem_velocity rem, spin_axis = Vec3 0 1 0\<rparr>,
          frame_bh2 = zero_BlackHole,
          frame_orbital = zero_OrbitalParams\<lparr>orb_separation := 0,
                            orbital_frequency := qnm_frequency q\<rparr>,
          frame_gw = gw_ring,
          frame_phase = (if gw_amplitude gw_ring > 1 / 10 ^ 30 then 2 else 3)\<rparr>)"

text \<open>The variables of the inspiral loop on entry.\<close>

definition initial_vars :: "SimulationConfig \<Rightarrow> BlackHole \<Rightarrow> BlackHole \<Rightarrow> InspiralVars" where
  "initial_vars config bh1 bh2 =
     \<lparr>cur_state = \<lparr>pos1 = position bh1, vel1 = velocity bh1,
                    pos2 = position bh2, vel2 = velocity bh2, time = 0\<rparr>,
      cur_bh1 = bh1, cur_bh2 = bh2,
      last_record_time = - record_interval config, last_phase = 0, step_count = 0,
      res_frames = [], res_merger_occurred = False, res_merger_time = 0,
      res_total_gw_cycles = 0\<rparr>"

text \<open>
  Phase 1 of \<^verbatim>\<open>run_simulation\<close>: initialise the binary, build the derivative function
  and run the inspiral loop. The result holds the loop variables on exit.
\<close>

definition run_inspiral :: "SimulationConfig \<Rightarrow> InspiralVars" where
  "run_inspiral config =
     (let bh1 = fst (init_binary (binary config));
          bh2 = snd (init_binary (binary config));
          deriv = make_deriv_func (mass bh1) (mass bh2)
                    (enable_1pn config) (enable_2pn config) (enable_25pn config);
          total_mass = mass bh1 + mass bh2
      in inspiral_loop config deriv total_mass (initial_vars config bh1 bh2))"

definition run_simulation :: "SimulationConfig \<Rightarrow> SimulationResult" where
  "run_simulation config =
     (let L = run_inspiral config;
          result =
            \<lparr>frames = res_frames L, result_config = binary config,
             remnant = zero_RemnantProperties, qnm = zero_QNMParams,
             merger_time = res_merger_time L, total_gw_cycles = res_total_gw_cycles L,
             total_energy_radiated = 0, merger_occurred = res_merger_occurred L,
             num_inspiral_frames = int (length (res_frames L)), num_ringdown_frames = 0\<rparr>
      in if merger_occurred result then
           let rem = compute_remnant (cur_bh1 L) (cur_bh2 L);
               merger_gw = compute_gw_strain (cur_bh1 L) (cur_bh2 L)
                             (observer_distance config) (observer_inclination config);
               merger_amplitude = gw_amplitude merger_gw * observer_distance config;
               q = compute_qnm_222 (rem_mass rem) (rem_spin rem) merger_amplitude;
               ringdown_dt = ringdown_duration config / real_of_int (ringdown_samples config)
           in result\<lparr>remnant := rem, total_energy_radiated := energy_radiated rem, qnm := q,
                frames := frames result @
                  map (ringdown_frame config rem q (merger_time result) ringdown_dt)
                    [0 ..< nat (ringdown_samples config)],
                num_ringdown_frames := ringdown_samples config\<rparr>
         else result)"


subsection \<open>Concrete inputs\<close>

text \<open>
  A body of mass 0.5 on the x axis at \<open>x = d\<close>, moving along z with speed \<open>w\<close>: the
  layout of the orbit tests of \<^verbatim>\<open>test_physics.cpp\<close>.
\<close>

definition orbit_body :: "real \<Rightarrow> real \<Rightarrow> BlackHole" where
  "orbit_body d w =
     \<lparr>mass = 0.5, chi = 0, position = Vec3 d 0 0, velocity = Vec3 0 0 w,
      spin_axis = Vec3 0 1 0\<rparr>"

definition orbit_state :: BinaryState where
  "orbit_state =
     \<lparr>pos1 = Vec3 7 0 0, vel1 = Vec3 0 0 0.1, pos2 = Vec3 (- 3) 0 0, vel2 = Vec3 0 0 (- 0.2),
      time = 0\<rparr>"

text \<open>A fixed-step configuration whose \<^verbatim>\<open>dt_initial\<close> lies above \<^verbatim>\<open>dt_max\<close>.\<close>

definition fixed_step_config :: IntegratorConfig where
  "fixed_step_config =
     \<lparr>dt_initial = 5, dt_min = 1 / 10 ^ 6, dt_max = 1, safety_factor = 0.1, adaptive = False\<rparr>"

text \<open>The default \<^verbatim>\<open>IntegratorConfig\<close> of \<^verbatim>\<open>integrator.h\<close>.\<close>

definition default_IntegratorConfig :: IntegratorConfig where
  "default_IntegratorConfig =
     \<lparr>dt_initial = 0.1, dt_min = 1 / 10 ^ 6, dt_max = 1, safety_factor = 0.1, adaptive = True\<rparr>"

text \<open>Ringdown parameters with damping time 1 and a quarter cycle per damping time.\<close>

definition quarter_cycle_qnm :: QNMParams where
  "quarter_cycle_qnm =
     \<lparr>qnm_frequency = 1 / 4, damping_time = 1, qnm_amplitude = 1, qnm_phase = 0\<rparr>"

text \<open>The defaults of \<^verbatim>\<open>BinaryConfig\<close> and \<^verbatim>\<open>SimulationConfig\<close>.\<close>

definition default_BinaryConfig :: BinaryConfig where
  "default_BinaryConfig =
     \<lparr>binary_m1 = 0.5, binary_m2 = 0.5, binary_chi1 = 0, binary_chi2 = 0,
      spin_axis1 = Vec3 0 1 0, spin_axis2 = Vec3 0 1 0, initial_separation = 20,
      eccentricity = 0, inclination = 0, distance = 10 ^ 6\<rparr>"

definition default_SimulationConfig :: SimulationConfig where
  "default_SimulationConfig =
     \<lparr>binary = default_BinaryConfig, integrator = default_IntegratorConfig,
      max_time = 10 ^ 6, record_interval = 10, ringdown_duration = 100,
      ringdown_samples = 500, observer_distance = 10 ^ 6, observer_inclination = 0,
      enable_1pn = True, enable_2pn = True, enable_25pn = True\<rparr>"

text \<open>The default run with a fixed step of length 0: the state never advances.\<close>

definition stalled_config :: SimulationConfig where
  "stalled_config =
     default_SimulationConfig
       \<lparr>integrator := \<lparr>dt_initial = 0, dt_min = 1 / 10 ^ 6, dt_max = 1, safety_factor = 0.1,
                        adaptive = False\<rparr>\<rparr>"

text \<open>The initial state of the default binary.\<close>

definition stalled_state :: BinaryState where
  "stalled_state =
     \<lparr>pos1 = Vec3 10 0 0, vel1 = Vec3 0 0 (sqrt (1 / 20) / 2),
      pos2 = Vec3 (- 10) 0 0, vel2 = Vec3 0 0 (- (sqrt (1 / 20) / 2)), time = 0\<rparr>"

definition stalled :: "InspiralVars \<Rightarrow> bool" where
  "stalled L \<longleftrightarrow>
     cur_state L = stalled_state \<and> mass (cur_bh1 L) = 0.5 \<and> mass (cur_bh2 L) = 0.5 \<and>
     step_count L \<le> 2000000000"

text \<open>The default run with \<^verbatim>\<open>max_time = 0\<close>: the loop is never entered.\<close>

definition idle_config :: SimulationConfig where
  "idle_config = default_SimulationConfig\<lparr>max_time := 0\<rparr>"

text \<open>
  A run handed masses 2 and 3 at separation 1, inside the critical radius
  \<open>0.5 * (4 + 6) / 2\<close>: the first pass of the loop detects the merger.
\<close>

definition close_config :: SimulationConfig where
  "close_config =
     default_SimulationConfig
       \<lparr>binary := default_BinaryConfig
          \<lparr>binary_m1 := 2, binary_m2 := 3, initial_separation := 1\<rparr>\<rparr>"

text \<open>
  Two bodies at rest on the x axis, at separation 20 and with the centre of mass of the
  masses 0.375 and 0.625 at the origin. Every number is a binary64 number.
\<close>

definition momentum_state :: BinaryState where
  "momentum_state =
     \<lparr>pos1 = Vec3 12.5 0 0, vel1 = Vec3 0 0 0, pos2 = Vec3 (- 7.5) 0 0, vel2 = Vec3 0 0 0,
      time = 0\<rparr>"

text \<open>
  A body of mass \<open>m\<close> in the layout of \<open>orbit_body\<close>. The masses used with it are
  \<open>1 / 2\<close> and \<open>1 / 2 + 1 / 2 ^ 53\<close>, the binary64 numbers 0.5 and 0.5000000000000001:
  what the normalisation of \<^verbatim>\<open>main\<close> makes of the masses 1 and 1.0000000000000002.
\<close>

definition near_equal_body :: "real \<Rightarrow> real \<Rightarrow> real \<Rightarrow> BlackHole" where
  "near_equal_body m d w =
     \<lparr>mass = m, chi = 0, position = Vec3 d 0 0, velocity = Vec3 0 0 w,
      spin_axis = Vec3 0 1 0\<rparr>"

subsection \<open>Predicates on the loop variables\<close>


text \<open>
  How the loop was left: through the merger branch, at a state with \<open>time < max_time\<close>
  on which \<^verbatim>\<open>should_merge\<close> holds, or without merger, at \<open>time \<ge> max_time\<close> or past
  the step ceiling.
\<close>

definition merger_outcome :: "SimulationConfig \<Rightarrow> InspiralVars \<Rightarrow> bool" where
  "merger_outcome config L \<longleftrightarrow>
     (if res_merger_occurred L
      then should_merge_default (cur_bh1 L) (cur_bh2 L) \<and>
           time (cur_state L) < max_time config \<and>
           res_merger_time L = time (cur_state L)
      else max_time config \<le> time (cur_state L) \<or> 2000000000 < step_count L)"

subsection \<open>Properties of the merger predicate\<close>

lemma should_merge_iff:
  "should_merge bh1 bh2 cf \<longleftrightarrow>
     glm_length (vsub (position bh1) (position bh2))
       \<le> cf * ((2 * mass bh1 + 2 * mass bh2) / 2)
     \<or> glm_length (vsub (velocity bh1) (velocity bh2)) > 2"
  by (simp add: should_merge_def schwarzschild_radius_def Let_def)

lemma should_merge_separation_20:
  "should_merge_default (test_body 10) (test_body (- 10)) = False"
  by (simp add: should_merge_default_def should_merge_def schwarzschild_radius_def
      test_body_def vzero_def glm_length_def Let_def)

text \<open>
  Claim C1: \<^verbatim>\<open>should_merge\<close> is true exactly when the separation is at most
  \<open>critical_factor\<close> times the average Schwarzschild radius or the relative speed
  exceeds 2; with masses 0.5/0.5 and zero velocities it is to be false at separation 20
  and true at separation 3. On the input of \<^verbatim>\<open>test_merger_detection\<close> at separation 3
  (bodies at \<open>x = 1.5\<close> and \<open>x = - 1.5\<close>, the default factor 0.5) the critical radius is
  \<open>0.5 * (1 + 1) / 2 = 0.5\<close>, the relative speed is 0, and the code answers false.
\<close>

theorem should_merge_separation_3:
  "should_merge_default (test_body 1.5) (test_body (- 1.5)) = False"
  by (simp add: should_merge_default_def should_merge_def schwarzschild_radius_def
      test_body_def vzero_def glm_length_def Let_def)

subsection \<open>Degenerate separations\<close>

lemma compute_relative_acceleration_degenerate:
  "glm_length r < 1 / 10 ^ 10 \<Longrightarrow>
   compute_relative_acceleration r v m1 m2 pn1 pn2 pn25 = zero_AccelerationResult"
  by (simp add: compute_relative_acceleration_def glm_length_def Let_def)

lemma compute_gw_strain_degenerate:
  "glm_length (vsub (position bh1) (position bh2)) < 1 / 10 ^ 10 \<or> D < 1 / 10 ^ 10 \<Longrightarrow>
   compute_gw_strain bh1 bh2 D iota = zero_GWStrain"
  by (auto simp add: compute_gw_strain_def compute_orbital_params_def Let_def)

text \<open>
  Claim C7: when \<open>|r| < 1e-10\<close>, \<^verbatim>\<open>compute_relative_acceleration\<close> returns the zero
  vector for the Newtonian, 1PN, 2PN and 2.5PN terms, for every velocity, pair of masses
  and combination of flags; \<^verbatim>\<open>compute_gw_strain\<close> returns the all-zero strain whenever
  the separation or the observer distance is below \<open>1e-10\<close>. Both are ordinary return
  values: neither function has an error path.
\<close>

theorem degenerate_separation_zero:
  "(glm_length r < 1 / 10 ^ 10 \<longrightarrow>
      a_newtonian (compute_relative_acceleration r v m1 m2 pn1 pn2 pn25) = Vec3 0 0 0 \<and>
      a_1pn (compute_relative_acceleration r v m1 m2 pn1 pn2 pn25) = Vec3 0 0 0 \<and>
      a_2pn (compute_relative_acceleration r v m1 m2 pn1 pn2 pn25) = Vec3 0 0 0 \<and>
      a_25pn (compute_relative_acceleration r v m1 m2 pn1 pn2 pn25) = Vec3 0 0 0) \<and>
   (glm_length (vsub (position bh1) (position bh2)) < 1 / 10 ^ 10 \<or> D < 1 / 10 ^ 10 \<longrightarrow>
      compute_gw_strain bh1 bh2 D iota =
        \<lparr>h_plus = 0, h_cross = 0, gw_amplitude = 0, gw_frequency = 0\<rparr>)"
  using compute_gw_strain_degenerate [of bh1 bh2 D iota]
  by (simp add: compute_relative_acceleration_degenerate zero_AccelerationResult_def
      zero_GWStrain_def vzero_def)

theorem degenerate_separation_zero_witness:
  "glm_length (Vec3 0 0 0) < 1 / 10 ^ 10 \<and>
   a_newtonian (compute_relative_acceleration (Vec3 0 0 0) (Vec3 1 2 3) 0.5 0.5 True True True)
     = Vec3 0 0 0 \<and>
   a_25pn (compute_relative_acceleration (Vec3 0 0 0) (Vec3 1 2 3) 0.5 0.5 True True True)
     = Vec3 0 0 0 \<and>
   (1::real) / 10 ^ 11 < 1 / 10 ^ 10 \<and>
   compute_gw_strain (test_body 10) (test_body (- 10)) (1 / 10 ^ 11) 0 =
     \<lparr>h_plus = 0, h_cross = 0, gw_amplitude = 0, gw_frequency = 0\<rparr>"
proof -
  have len: "glm_length (Vec3 0 0 0) < 1 / 10 ^ 10"
    by (simp add: glm_length_def)
  have dist: "(1::real) / 10 ^ 11 < 1 / 10 ^ 10"
    by simp
  from degenerate_separation_zero
    [of "Vec3 0 0 0" "Vec3 1 2 3" "0.5" "0.5" True True True
        "test_body 10" "test_body (- 10)" "1 / 10 ^ 11" 0]
  show ?thesis using len dist by simp
qed

subsection \<open>Rounding to binary64\<close>

lemma rne_error: "\<bar>of_int (rne x) - x\<bar> \<le> 1 / 2"
  unfolding rne_def Let_def by (auto; linarith)

lemma rne_ge: "of_int n \<le> x \<Longrightarrow> n \<le> rne x"
  unfolding rne_def Let_def by (auto simp: le_floor_iff; linarith)

lemma b64_zero: "b64 0 = 0"
  by (simp add: b64_def)

lemma b64_unit:
  assumes "x \<noteq> 0" and "2 powr of_int k \<le> \<bar>x\<bar>" and "\<bar>x\<bar> < 2 powr (of_int k + 1)"
  shows "b64 x = of_int (rne (x / 2 powr (of_int k - 52))) * 2 powr (of_int k - 52)"
proof -
  have "\<lfloor>log 2 \<bar>x\<bar>\<rfloor> = k"
    using assms by (simp add: floor_log_eq_powr_iff)
  then show ?thesis
    using assms(1) by (simp add: b64_def Let_def)
qed

lemma b64_error: "\<bar>b64 x - x\<bar> \<le> \<bar>x\<bar> / 2 ^ 53"
proof (cases "x = 0")
  case True
  then show ?thesis by (simp add: b64_zero)
next
  case False
  define k where "k = \<lfloor>log 2 \<bar>x\<bar>\<rfloor>"
  define u :: real where "u = 2 powr (of_int k - 52)"
  have pos: "0 < \<bar>x\<bar>"
    using False by simp
  have "\<lfloor>log 2 \<bar>x\<bar>\<rfloor> = k"
    by (simp add: k_def)
  then have lo: "2 powr of_int k \<le> \<bar>x\<bar>"
    using pos by (simp add: floor_log_eq_powr_iff)
  have u: "0 < u"
    by (simp add: u_def)
  have b: "b64 x = of_int (rne (x / u)) * u"
    using False by (simp add: b64_def Let_def k_def u_def)
  have "b64 x - x = (of_int (rne (x / u)) - x / u) * u"
    using u by (simp add: b field_simps)
  then have "\<bar>b64 x - x\<bar> = \<bar>of_int (rne (x / u)) - x / u\<bar> * u"
    using u by (simp add: abs_mult)
  also have "\<dots> \<le> 1 / 2 * u"
    using u rne_error [of "x / u"] by (simp add: mult_right_mono)
  also have "1 / 2 * u = 2 powr of_int k / 2 ^ 53"
    by (simp add: u_def powr_diff)
  also have "\<dots> \<le> \<bar>x\<bar> / 2 ^ 53"
    using lo by (simp add: divide_right_mono)
  finally show ?thesis .
qed

lemma b64_pos:
  assumes "0 < x"
  shows "0 < b64 x"
proof -
  define k where "k = \<lfloor>log 2 \<bar>x\<bar>\<rfloor>"
  define u :: real where "u = 2 powr (of_int k - 52)"
  have "\<lfloor>log 2 \<bar>x\<bar>\<rfloor> = k"
    by (simp add: k_def)
  then have lo: "2 powr of_int k \<le> \<bar>x\<bar>"
    using assms by (simp add: floor_log_eq_powr_iff)
  have u: "0 < u"
    by (simp add: u_def)
  have "2 powr of_int k = 2 ^ 52 * u"
    by (simp add: u_def powr_diff)
  then have "of_int (2 ^ 52) \<le> x / u"
    using lo u assms by (simp add: field_simps)
  then have "2 ^ 52 \<le> rne (x / u)"
    by (rule rne_ge)
  then have "0 < rne (x / u)"
    by simp
  then show ?thesis
    using assms u by (simp add: b64_def Let_def k_def u_def)
qed

text \<open>
  Evaluation of \<open>b64\<close>: a number that a power of 2 scales into the range of the 53-bit
  integers is rounded there.
\<close>

lemma b64_scale_up:
  assumes "2 ^ 52 \<le> \<bar>x\<bar> * 2 ^ k" and "\<bar>x\<bar> * 2 ^ k < 2 ^ 53"
  shows "b64 x = of_int (rne (x * 2 ^ k)) / 2 ^ k"
proof -
  have x: "x \<noteq> 0"
    using assms(1) by auto
  have p: "(2::real) powr (of_int (52 - int k)) = 2 ^ 52 / 2 ^ k"
    by (simp add: powr_diff powr_realpow)
  have p1: "(2::real) powr (of_int (52 - int k) + 1) = 2 ^ 53 / 2 ^ k"
    by (simp add: powr_diff powr_add powr_realpow)
  have u: "(2::real) powr (of_int (52 - int k) - 52) = 1 / 2 ^ k"
    by (simp add: powr_minus powr_realpow field_simps)
  have "b64 x = of_int (rne (x / 2 powr (of_int (52 - int k) - 52)))
                  * 2 powr (of_int (52 - int k) - 52)"
    using x assms by (intro b64_unit) (simp_all only: p p1, simp_all add: field_simps)
  then show ?thesis
    by (simp only: u) simp
qed

lemma b64_scale_down:
  assumes "2 ^ 52 \<le> \<bar>x\<bar> / 2 ^ k" and "\<bar>x\<bar> / 2 ^ k < 2 ^ 53"
  shows "b64 x = of_int (rne (x / 2 ^ k)) * 2 ^ k"
proof -
  have x: "x \<noteq> 0"
    using assms(1) by auto
  have p: "(2::real) powr (of_int (52 + int k)) = 2 ^ 52 * 2 ^ k"
    by (simp add: powr_add powr_realpow)
  have p1: "(2::real) powr (of_int (52 + int k) + 1) = 2 ^ 53 * 2 ^ k"
    by (simp add: powr_add powr_realpow)
  have u: "(2::real) powr (of_int (52 + int k) - 52) = 2 ^ k"
    by (simp add: powr_realpow)
  have "b64 x = of_int (rne (x / 2 powr (of_int (52 + int k) - 52)))
                  * 2 powr (of_int (52 + int k) - 52)"
    using x assms by (intro b64_unit) (simp_all only: p p1, simp_all add: field_simps)
  then show ?thesis
    by (simp only: u)
qed

text \<open>The rounding errors of \<open>(m / M) * x\<close> and \<open>- (m / M) * x\<close> as the C++ evaluates them.\<close>

lemma rounding_arith:
  fixes A B C Q :: real
  assumes "A \<le> B / 2 ^ 53" and "B \<le> Q + Q / 2 ^ 53" and "C \<le> Q / 2 ^ 53" and "0 \<le> Q"
  shows "A + C \<le> 5 / 2 / 2 ^ 53 * Q"
  using assms by simp

lemma split_error:
  "\<bar>b64 (b64 q * x) - q * x\<bar> \<le> 5 / 2 / 2 ^ 53 * (\<bar>q\<bar> * \<bar>x\<bar>)"
proof -
  define p where "p = b64 q"
  have e1: "\<bar>p - q\<bar> \<le> \<bar>q\<bar> / 2 ^ 53"
    unfolding p_def by (rule b64_error)
  have e2: "\<bar>b64 (p * x) - p * x\<bar> \<le> \<bar>p * x\<bar> / 2 ^ 53"
    by (rule b64_error)
  have "\<bar>p\<bar> \<le> \<bar>q\<bar> + \<bar>q\<bar> / 2 ^ 53"
    using e1 by linarith
  then have "\<bar>p\<bar> * \<bar>x\<bar> \<le> (\<bar>q\<bar> + \<bar>q\<bar> / 2 ^ 53) * \<bar>x\<bar>"
    by (rule mult_right_mono) simp
  then have px: "\<bar>p * x\<bar> \<le> \<bar>q\<bar> * \<bar>x\<bar> + \<bar>q\<bar> * \<bar>x\<bar> / 2 ^ 53"
    by (simp add: abs_mult algebra_simps)
  have "\<bar>p - q\<bar> * \<bar>x\<bar> \<le> \<bar>q\<bar> / 2 ^ 53 * \<bar>x\<bar>"
    using e1 by (rule mult_right_mono) simp
  then have d: "\<bar>p * x - q * x\<bar> \<le> \<bar>q\<bar> * \<bar>x\<bar> / 2 ^ 53"
    by (simp add: abs_mult [symmetric] algebra_simps)
  have nn: "0 \<le> \<bar>q\<bar> * \<bar>x\<bar>"
    by simp
  have "\<bar>b64 (p * x) - q * x\<bar> \<le> \<bar>b64 (p * x) - p * x\<bar> + \<bar>p * x - q * x\<bar>"
    by linarith
  also have "\<dots> \<le> 5 / 2 / 2 ^ 53 * (\<bar>q\<bar> * \<bar>x\<bar>)"
    using e2 px d nn by (rule rounding_arith)
  finally show ?thesis
    by (simp only: p_def)
qed

lemma split_error_neg:
  "\<bar>b64 (- b64 q * x) + q * x\<bar> \<le> 5 / 2 / 2 ^ 53 * (\<bar>q\<bar> * \<bar>x\<bar>)"
proof -
  define p where "p = b64 q"
  have e1: "\<bar>p - q\<bar> \<le> \<bar>q\<bar> / 2 ^ 53"
    unfolding p_def by (rule b64_error)
  have e2: "\<bar>b64 (- p * x) - (- p * x)\<bar> \<le> \<bar>- p * x\<bar> / 2 ^ 53"
    by (rule b64_error)
  have "\<bar>p\<bar> \<le> \<bar>q\<bar> + \<bar>q\<bar> / 2 ^ 53"
    using e1 by linarith
  then have "\<bar>p\<bar> * \<bar>x\<bar> \<le> (\<bar>q\<bar> + \<bar>q\<bar> / 2 ^ 53) * \<bar>x\<bar>"
    by (rule mult_right_mono) simp
  then have px: "\<bar>- p * x\<bar> \<le> \<bar>q\<bar> * \<bar>x\<bar> + \<bar>q\<bar> * \<bar>x\<bar> / 2 ^ 53"
    by (simp add: abs_mult algebra_simps)
  have "\<bar>p - q\<bar> * \<bar>x\<bar> \<le> \<bar>q\<bar> / 2 ^ 53 * \<bar>x\<bar>"
    using e1 by (rule mult_right_mono) simp
  then have d: "\<bar>p * x - q * x\<bar> \<le> \<bar>q\<bar> * \<bar>x\<bar> / 2 ^ 53"
    by (simp add: abs_mult [symmetric] algebra_simps)
  have nn: "0 \<le> \<bar>q\<bar> * \<bar>x\<bar>"
    by simp
  have "\<bar>b64 (- p * x) + q * x\<bar> \<le> \<bar>b64 (- p * x) - (- p * x)\<bar> + \<bar>p * x - q * x\<bar>"
    by (simp add: algebra_simps)
  also have "\<dots> \<le> 5 / 2 / 2 ^ 53 * (\<bar>q\<bar> * \<bar>x\<bar>)"
    using e2 px d nn by (rule rounding_arith)
  finally show ?thesis
    by (simp only: p_def)
qed

lemma residual_bound:
  assumes "0 < m1" and "0 < m2" and "0 < M"
  shows "\<bar>m1 * mul64 (div64 m2 M) x + m2 * mul64 (- div64 m1 M) x\<bar>
           \<le> 5 / 2 ^ 53 * (m1 * m2 / M) * \<bar>x\<bar>"
proof -
  define a1 where "a1 = b64 (b64 (m2 / M) * x)"
  define a2 where "a2 = b64 (- b64 (m1 / M) * x)"
  define Q where "Q = m1 * m2 / M * \<bar>x\<bar>"
  have q1: "\<bar>m2 / M\<bar> = m2 / M" and q2: "\<bar>m1 / M\<bar> = m1 / M"
    using assms by simp_all
  have "\<bar>a1 - m2 / M * x\<bar> \<le> 5 / 2 / 2 ^ 53 * (m2 / M * \<bar>x\<bar>)"
    using split_error [of "m2 / M" x] by (simp only: a1_def q1)
  then have "m1 * \<bar>a1 - m2 / M * x\<bar> \<le> m1 * (5 / 2 / 2 ^ 53 * (m2 / M * \<bar>x\<bar>))"
    using assms(1) by (simp only: mult_le_cancel_left_pos)
  moreover have "m1 * a1 - m1 * (m2 / M * x) = m1 * (a1 - m2 / M * x)"
    by (simp only: right_diff_distrib)
  then have "\<bar>m1 * a1 - m1 * (m2 / M * x)\<bar> = m1 * \<bar>a1 - m2 / M * x\<bar>"
    using assms(1) by (simp only: abs_mult abs_of_pos)
  moreover have "m1 * (5 / 2 / 2 ^ 53 * (m2 / M * \<bar>x\<bar>)) = 5 / 2 / 2 ^ 53 * Q"
    by (simp add: Q_def)
  ultimately have b1: "\<bar>m1 * a1 - m1 * (m2 / M * x)\<bar> \<le> 5 / 2 / 2 ^ 53 * Q"
    by (simp only:)
  have "\<bar>a2 + m1 / M * x\<bar> \<le> 5 / 2 / 2 ^ 53 * (m1 / M * \<bar>x\<bar>)"
    using split_error_neg [of "m1 / M" x] by (simp only: a2_def q2)
  then have "m2 * \<bar>a2 + m1 / M * x\<bar> \<le> m2 * (5 / 2 / 2 ^ 53 * (m1 / M * \<bar>x\<bar>))"
    using assms(2) by (simp only: mult_le_cancel_left_pos)
  moreover have "m2 * a2 + m2 * (m1 / M * x) = m2 * (a2 + m1 / M * x)"
    by (simp only: distrib_left)
  then have "\<bar>m2 * a2 + m2 * (m1 / M * x)\<bar> = m2 * \<bar>a2 + m1 / M * x\<bar>"
    using assms(2) by (simp only: abs_mult abs_of_pos)
  moreover have "m2 * (5 / 2 / 2 ^ 53 * (m1 / M * \<bar>x\<bar>)) = 5 / 2 / 2 ^ 53 * Q"
    by (simp add: Q_def)
  ultimately have b2: "\<bar>m2 * a2 + m2 * (m1 / M * x)\<bar> \<le> 5 / 2 / 2 ^ 53 * Q"
    by (simp only:)
  define T where "T = m1 * (m2 / M * x)"
  define U where "U = m1 * a1"
  define V where "V = m2 * a2"
  have c: "m2 * (m1 / M * x) = T"
    by (simp add: T_def)
  have b1': "\<bar>U - T\<bar> \<le> 5 / 2 / 2 ^ 53 * Q"
    using b1 by (simp only: T_def U_def)
  have b2': "\<bar>V + T\<bar> \<le> 5 / 2 / 2 ^ 53 * Q"
    using b2 by (simp only: c V_def)
  have "\<bar>U + V\<bar> \<le> \<bar>U - T\<bar> + \<bar>V + T\<bar>"
    by linarith
  also have "\<dots> \<le> 5 / 2 ^ 53 * Q"
    using b1' b2' by simp
  finally have "\<bar>m1 * a1 + m2 * a2\<bar> \<le> 5 / 2 ^ 53 * Q"
    by (simp only: U_def V_def)
  then show ?thesis
    by (simp add: a1_def a2_def Q_def mul64_def div64_def)
qed

subsection \<open>Momentum balance of the per-body accelerations\<close>

lemma smul_vadd_cancel:
  "M \<noteq> 0 \<Longrightarrow>
   vadd (smul m1 (smul (m2 / M) a)) (smul m2 (smul (- (m1 / M)) a)) = Vec3 0 0 0"
  by (cases a) (simp add: field_simps)

lemma smul_vadd_distrib: "smul s (vadd a b) = vadd (smul s a) (smul s b)"
  by (cases a; cases b) (simp add: algebra_simps)

text \<open>
  \<^verbatim>\<open>compute_acceleration\<close> scales every term by \<open>m2 / M\<close>: its total is the
  acceleration \<open>dvel1\<close> that the derivative function gives body 1.
\<close>

lemma compute_acceleration_total:
  "acc_total (compute_acceleration bh1 bh2 pn1 pn2 pn25) =
     smul (mass bh2 / (mass bh1 + mass bh2))
       (acc_total (compute_relative_acceleration
          (vsub (position bh1) (position bh2)) (vsub (velocity bh1) (velocity bh2))
          (mass bh1) (mass bh2) pn1 pn2 pn25))"
  by (simp add: compute_acceleration_def acc_total_def Let_def smul_vadd_distrib)

text \<open>The derivative function in binary64 arithmetic at \<open>momentum_state\<close>.\<close>

lemma b64_1: "b64 1 = 1"
  by (subst b64_scale_up [of _ 52]) (simp_all add: rne_def)

lemma b64_20: "b64 20 = 20"
  by (subst b64_scale_up [of _ 48]) (simp_all add: rne_def)

lemma b64_400: "b64 400 = 400"
  by (subst b64_scale_up [of _ 44]) (simp_all add: rne_def)

lemma sqrt_400: "sqrt 400 = 20"
  by (rule real_sqrt_unique) simp_all

lemma b64_le_double:
  assumes "0 \<le> x"
  shows "b64 x \<le> 2 * x"
proof -
  have "\<bar>b64 x - x\<bar> \<le> \<bar>x\<bar> / 2 ^ 53"
    by (rule b64_error)
  also have "\<dots> \<le> \<bar>x\<bar>"
    by (simp add: field_simps)
  finally have "\<bar>b64 x - x\<bar> \<le> \<bar>x\<bar>" .
  then show ?thesis
    using assms by linarith
qed

lemma b64_tiny: "b64 (1 / 10 ^ 10) \<le> 1"
  using b64_le_double [of "1 / 10 ^ 10"] by simp

lemma b64_five_eighths: "b64 (5 / 8) = 5 / 8"
  by (subst b64_scale_up [of _ 53]) (simp_all add: rne_def)

lemma b64_three_eighths: "b64 (3 / 8) = 3 / 8"
  by (subst b64_scale_up [of _ 54]) (simp_all add: rne_def)

lemma b64_newton: "b64 (- (1 / 400)) = - (5764607523034235 / 2305843009213693952)"
  by (subst b64_scale_up [of _ 61]) (simp_all add: rne_def)

lemma b64_newton_again:
  "b64 (- (5764607523034235 / 2305843009213693952)) = - (5764607523034235 / 2305843009213693952)"
  by (subst b64_scale_up [of _ 61]) (simp_all add: rne_def)

lemma b64_tiny_less: "\<not> 20 < b64 (1 / 10000000000)"
  using b64_tiny by simp

lemma b64_first: "b64 (- (28823037615171175 / 18446744073709551616))
    = - (3602879701896397 / 2305843009213693952)"
  by (subst b64_scale_up [of _ 62]) (simp_all add: rne_def)

lemma b64_second: "b64 (17293822569102705 / 18446744073709551616)
    = 1080863910568919 / 1152921504606846976"
  by (subst b64_scale_up [of _ 63]) (simp_all add: rne_def)

lemma momentum_state_deriv:
  "make_deriv_func64 (3 / 8) (5 / 8) False False False momentum_state =
     \<lparr>dpos1 = Vec3 0 0 0,
      dvel1 = Vec3 (- (3602879701896397 / 2305843009213693952)) 0 0,
      dpos2 = Vec3 0 0 0,
      dvel2 = Vec3 (1080863910568919 / 1152921504606846976) 0 0\<rparr>"
  by (simp add: make_deriv_func64_def compute_relative_acceleration64_def Let_def
      momentum_state_def add64_def sub64_def mul64_def div64_def sqrt64_def acc_total64_def
      vzero_def sqrt_400 b64_zero b64_1 b64_20 b64_400 b64_tiny_less b64_five_eighths
      b64_three_eighths b64_newton b64_newton_again b64_first b64_second)

text \<open>The same sum as the C++ would evaluate it, every product and the sum rounded.\<close>

lemma b64_first_momentum: "b64 (- (10808639105689191 / 18446744073709551616))
    = - (1351079888211149 / 2305843009213693952)"
  by (subst b64_scale_up [of _ 63]) (simp_all add: rne_def)

lemma b64_second_momentum: "b64 (5404319552844595 / 9223372036854775808)
    = 5404319552844595 / 9223372036854775808"
  by (subst b64_scale_up [of _ 63]) (simp_all add: rne_def)

lemma b64_momentum_sum: "b64 (- (1 / 9223372036854775808)) = - (1 / 9223372036854775808)"
  by (subst b64_scale_up [of _ 115]) (simp_all add: rne_def)

lemma momentum_state_rounded_sum:
  "vadd64 (smul64 (3 / 8)
             (dvel1 (make_deriv_func64 (3 / 8) (5 / 8) False False False momentum_state)))
          (smul64 (5 / 8)
             (dvel2 (make_deriv_func64 (3 / 8) (5 / 8) False False False momentum_state)))
     = Vec3 (- (1 / 2 ^ 63)) 0 0"
  by (simp add: momentum_state_deriv mul64_def add64_def b64_zero b64_first_momentum
      b64_second_momentum b64_momentum_sum)

text \<open>
  Claim C2, as stated: the per-body accelerations satisfy \<open>m1 * a1 + m2 * a2 = 0\<close>
  exactly. The C++ computes \<open>a1\<close> and \<open>a2\<close> in binary64 arithmetic, where the two
  products are rounded separately. For the masses 0.375 and 0.625 at separation 20, with
  the Newtonian term alone, the relative acceleration is \<open>- b64 (1 / 400)\<close> along x and
  \<open>m1 * a1 + m2 * a2\<close> is \<open>- 1 / 2 ^ 64\<close> along x, not 0; evaluated in binary64
  arithmetic itself, the sum is \<open>- 1 / 2 ^ 63\<close> along x.
\<close>

theorem deriv_momentum_not_exact:
  "(0::real) < 3 / 8 \<and> (0::real) < 5 / 8 \<and>
   vadd (smul (3 / 8) (dvel1 (make_deriv_func64 (3 / 8) (5 / 8) False False False momentum_state)))
        (smul (5 / 8) (dvel2 (make_deriv_func64 (3 / 8) (5 / 8) False False False momentum_state)))
     = Vec3 (- (1 / 2 ^ 64)) 0 0 \<and>
   vadd (smul (3 / 8) (dvel1 (make_deriv_func64 (3 / 8) (5 / 8) False False False momentum_state)))
        (smul (5 / 8) (dvel2 (make_deriv_func64 (3 / 8) (5 / 8) False False False momentum_state)))
     \<noteq> Vec3 0 0 0 \<and>
   vadd64 (smul64 (3 / 8)
             (dvel1 (make_deriv_func64 (3 / 8) (5 / 8) False False False momentum_state)))
          (smul64 (5 / 8)
             (dvel2 (make_deriv_func64 (3 / 8) (5 / 8) False False False momentum_state)))
     \<noteq> Vec3 0 0 0"
  by (simp add: momentum_state_rounded_sum) (simp add: momentum_state_deriv)

text \<open>
  Claim C2, amended: for every state, all positive masses and every combination of the
  1PN, 2PN and 2.5PN flags, \<open>m1 * a1 + m2 * a2 = 0\<close> holds in exact arithmetic (on the
  degenerate branch too, where \<open>a_rel\<close> is zero). In binary64 arithmetic the rounded
  total mass \<open>M\<close> is positive and the sum is zero up to rounding only: each of its
  components is at most \<open>5 / 2 ^ 53 * (m1 * m2 / M)\<close> times the magnitude of that
  component of the relative acceleration.
\<close>

theorem deriv_momentum_residual:
  assumes "0 < m1" and "0 < m2"
  shows "vadd (smul m1 (dvel1 (make_deriv_func m1 m2 pn1 pn2 pn25 state)))
              (smul m2 (dvel2 (make_deriv_func m1 m2 pn1 pn2 pn25 state))) = Vec3 0 0 0 \<and>
         0 < add64 m1 m2 \<and>
         (let a_rel = acc_total64 (compute_relative_acceleration64
                        (vsub64 (pos1 state) (pos2 state)) (vsub64 (vel1 state) (vel2 state))
                        m1 m2 pn1 pn2 pn25);
              res = vadd (smul m1 (dvel1 (make_deriv_func64 m1 m2 pn1 pn2 pn25 state)))
                         (smul m2 (dvel2 (make_deriv_func64 m1 m2 pn1 pn2 pn25 state)));
              bound = 5 / 2 ^ 53 * (m1 * m2 / add64 m1 m2)
          in \<bar>vx res\<bar> \<le> bound * \<bar>vx a_rel\<bar> \<and> \<bar>vy res\<bar> \<le> bound * \<bar>vy a_rel\<bar> \<and>
             \<bar>vz res\<bar> \<le> bound * \<bar>vz a_rel\<bar>)"
proof -
  define M where "M = add64 m1 m2"
  define a_rel where "a_rel = acc_total64 (compute_relative_acceleration64
                        (vsub64 (pos1 state) (pos2 state)) (vsub64 (vel1 state) (vel2 state))
                        m1 m2 pn1 pn2 pn25)"
  obtain x y z where a: "a_rel = Vec3 x y z"
    by (cases a_rel)
  have M: "0 < M"
    using assms by (simp add: M_def add64_def b64_pos)
  from assms have "m1 + m2 \<noteq> 0" by simp
  then have exact: "vadd (smul m1 (dvel1 (make_deriv_func m1 m2 pn1 pn2 pn25 state)))
              (smul m2 (dvel2 (make_deriv_func m1 m2 pn1 pn2 pn25 state))) = Vec3 0 0 0"
    by (simp add: make_deriv_func_def Let_def smul_vadd_cancel)
  have d1: "dvel1 (make_deriv_func64 m1 m2 pn1 pn2 pn25 state) = smul64 (div64 m2 M) a_rel"
    and d2: "dvel2 (make_deriv_func64 m1 m2 pn1 pn2 pn25 state) = smul64 (- div64 m1 M) a_rel"
    by (simp_all add: make_deriv_func64_def Let_def M_def a_rel_def)
  note r = residual_bound [OF assms M]
  show ?thesis
    using exact M r [of x] r [of y] r [of z]
    by (simp add: Let_def d1 d2 a_rel_def [symmetric] M_def [symmetric] a)
qed

theorem deriv_momentum_residual_witness:
  "(0::real) < 3 / 8 \<and> (0::real) < 5 / 8 \<and>
   vadd (smul (3 / 8) (dvel1 (make_deriv_func (3 / 8) (5 / 8) False False False momentum_state)))
        (smul (5 / 8) (dvel2 (make_deriv_func (3 / 8) (5 / 8) False False False momentum_state)))
     = Vec3 0 0 0 \<and>
   0 < add64 (3 / 8) (5 / 8) \<and>
   \<bar>vx (vadd (smul (3 / 8)
               (dvel1 (make_deriv_func64 (3 / 8) (5 / 8) False False False momentum_state)))
             (smul (5 / 8)
               (dvel2 (make_deriv_func64 (3 / 8) (5 / 8) False False False momentum_state))))\<bar>
     \<le> 5 / 2 ^ 53 * (3 / 8 * (5 / 8) / add64 (3 / 8) (5 / 8)) *
        \<bar>vx (acc_total64 (compute_relative_acceleration64
               (vsub64 (pos1 momentum_state) (pos2 momentum_state))
               (vsub64 (vel1 momentum_state) (vel2 momentum_state))
               (3 / 8) (5 / 8) False False False))\<bar>"
proof -
  have m: "(0::real) < 3 / 8" "(0::real) < 5 / 8"
    by simp_all
  from deriv_momentum_residual [OF m, of False False False momentum_state]
  show ?thesis
    by (simp add: Let_def)
qed

subsection \<open>Gravitational-wave frequency\<close>

lemma orb_separation_compute_orbital_params:
  "orb_separation (compute_orbital_params bh1 bh2) =
     glm_length (vsub (position bh1) (position bh2))"
  by (simp add: compute_orbital_params_def Let_def)

lemma compute_gw_strain_frequency:
  "1 / 10 ^ 10 \<le> glm_length (vsub (position bh1) (position bh2)) \<Longrightarrow> 1 / 10 ^ 10 \<le> D \<Longrightarrow>
   gw_frequency (compute_gw_strain bh1 bh2 D iota) =
     orbital_frequency (compute_orbital_params bh1 bh2) / pi"
  by (simp add: compute_gw_strain_def Let_def orb_separation_compute_orbital_params
      not_less [symmetric])

lemma orbit_body_separation:
  "glm_length (vsub (position (orbit_body 10 0.1)) (position (orbit_body (- 10) (- 0.1)))) = 20"
  by (simp add: orbit_body_def glm_length_def)

lemma orbit_body_orbital_frequency:
  "orbital_frequency (compute_orbital_params (orbit_body 10 0.1) (orbit_body (- 10) (- 0.1)))
     = 0.01"
  by (simp add: compute_orbital_params_def Let_def orbit_body_def glm_length_def)

text \<open>
  Claim C5, as stated: for separation and observer distance at least \<open>1e-10\<close>, the
  frequency of the strain is twice the \<^verbatim>\<open>orbital_frequency\<close> of
  \<^verbatim>\<open>compute_orbital_params\<close>. Two bodies of mass 0.5 at \<open>x = 10\<close> and \<open>x = - 10\<close> with
  velocities \<open>0.1\<close> and \<open>- 0.1\<close> along z have \<open>orbital_frequency = 0.01\<close>; the strain
  reports \<open>0.01 / pi\<close>, not \<open>0.02\<close>.
\<close>

theorem gw_frequency_not_twice_orbital:
  "1 / 10 ^ 10 \<le>
     glm_length (vsub (position (orbit_body 10 0.1)) (position (orbit_body (- 10) (- 0.1)))) \<and>
   1 / 10 ^ 10 \<le> (1::real) \<and>
   gw_frequency (compute_gw_strain (orbit_body 10 0.1) (orbit_body (- 10) (- 0.1)) 1 0) \<noteq>
     2 * orbital_frequency
           (compute_orbital_params (orbit_body 10 0.1) (orbit_body (- 10) (- 0.1)))"
proof -
  have d: "1 / 10 ^ 10 \<le> (1::real)"
    by simp
  have s: "1 / 10 ^ 10 \<le>
      glm_length (vsub (position (orbit_body 10 0.1)) (position (orbit_body (- 10) (- 0.1))))"
    by (simp add: orbit_body_separation)
  have "gw_frequency (compute_gw_strain (orbit_body 10 0.1) (orbit_body (- 10) (- 0.1)) 1 0)
          = 0.01 / pi"
    using compute_gw_strain_frequency [OF s d, of 0]
    by (simp add: orbit_body_orbital_frequency)
  moreover have "0.01 / pi \<noteq> 2 * (0.01::real)"
    using pi_ge_two by (simp add: field_simps)
  ultimately show ?thesis
    using s d by (simp add: orbit_body_orbital_frequency)
qed

text \<open>
  Claim C5, amended: for separation and observer distance at least \<open>1e-10\<close>, the
  frequency of the strain is the \<^verbatim>\<open>orbital_frequency\<close> \<open>\<omega>\<close> of \<^verbatim>\<open>compute_orbital_params\<close>
  divided by \<open>pi\<close>. The field \<^verbatim>\<open>orbital_frequency\<close> is an angular frequency; the strain
  reports cycles per unit time, twice the orbital rate \<open>\<omega> / (2 * pi)\<close>.
\<close>

theorem gw_frequency_orbital:
  "1 / 10 ^ 10 \<le> glm_length (vsub (position bh1) (position bh2)) \<Longrightarrow> 1 / 10 ^ 10 \<le> D \<Longrightarrow>
   gw_frequency (compute_gw_strain bh1 bh2 D iota) =
     orbital_frequency (compute_orbital_params bh1 bh2) / pi \<and>
   gw_frequency (compute_gw_strain bh1 bh2 D iota) =
     2 * (orbital_frequency (compute_orbital_params bh1 bh2) / (2 * pi))"
  by (simp add: compute_gw_strain_frequency)

theorem gw_frequency_orbital_witness:
  "1 / 10 ^ 10 \<le>
     glm_length (vsub (position (orbit_body 10 0.1)) (position (orbit_body (- 10) (- 0.1)))) \<and>
   1 / 10 ^ 10 \<le> (1::real) \<and>
   gw_frequency (compute_gw_strain (orbit_body 10 0.1) (orbit_body (- 10) (- 0.1)) 1 0) =
     0.01 / pi"
proof -
  have d: "1 / 10 ^ 10 \<le> (1::real)"
    by simp
  have s: "1 / 10 ^ 10 \<le>
      glm_length (vsub (position (orbit_body 10 0.1)) (position (orbit_body (- 10) (- 0.1))))"
    by (simp add: orbit_body_separation)
  from gw_frequency_orbital [OF s d, of 0] s d
  show ?thesis by (simp add: orbit_body_orbital_frequency)
qed

subsection \<open>The adaptive step controller\<close>

lemma std_clamp_range: "lo \<le> hi \<Longrightarrow> lo \<le> std_clamp v lo hi \<and> std_clamp v lo hi \<le> hi"
  by (simp add: std_clamp_def)

lemma adaptive_timestep_cases:
  "adaptive_timestep state config M =
     (if \<not> adaptive config then dt_initial config
      else if glm_length (vsub (pos1 state) (pos2 state)) < 1 / 10 ^ 10 then dt_min config
      else std_clamp
             (safety_factor config
                * (2 * pi * sqrt (glm_length (vsub (pos1 state) (pos2 state)) ^ 3 / M))
                * (if glm_length (vsub (pos1 state) (pos2 state)) < 2 * (6 * M)
                   then (glm_length (vsub (pos1 state) (pos2 state)) / (2 * (6 * M))) ^ 2
                   else 1))
             (dt_min config) (dt_max config))"
  by (simp add: adaptive_timestep_def Let_def power2_eq_square power3_eq_cube)

lemma adaptive_timestep_range:
  "adaptive config \<Longrightarrow> dt_min config \<le> dt_max config \<Longrightarrow>
   dt_min config \<le> adaptive_timestep state config M \<and>
   adaptive_timestep state config M \<le> dt_max config"
  by (simp add: adaptive_timestep_cases std_clamp_range)

text \<open>
  Claim C3, as stated, ends: for every input the returned value is a finite, clamped
  \<open>dt\<close>. With adaptive stepping disabled the function returns \<^verbatim>\<open>dt_initial\<close> as it is:
  for \<^verbatim>\<open>dt_initial = 5\<close>, \<^verbatim>\<open>dt_min = 1e-6\<close> and \<^verbatim>\<open>dt_max = 1\<close> the result 5 lies outside
  \<open>[dt_min, dt_max]\<close>.
\<close>

theorem adaptive_timestep_not_clamped:
  "dt_min fixed_step_config \<le> dt_max fixed_step_config \<and>
   adaptive_timestep orbit_state fixed_step_config 1 = 5 \<and>
   \<not> (dt_min fixed_step_config \<le> adaptive_timestep orbit_state fixed_step_config 1 \<and>
      adaptive_timestep orbit_state fixed_step_config 1 \<le> dt_max fixed_step_config)"
  by (simp add: adaptive_timestep_def fixed_step_config_def)

text \<open>
  Claim C3, amended: \<^verbatim>\<open>adaptive_timestep\<close> returns \<^verbatim>\<open>dt_initial\<close>, unclamped, when
  adaptive stepping is disabled; otherwise it returns \<^verbatim>\<open>dt_min\<close> when the separation
  \<open>r\<close> is below \<open>1e-10\<close>, and else clamps
  \<open>safety_factor * 2 * pi * sqrt (r^3 / M)\<close>, multiplied by \<open>(r / (2 * r_isco))^2\<close> with
  \<open>r_isco = 6 * M\<close> when \<open>r < 2 * r_isco\<close>, to \<open>[dt_min, dt_max]\<close>. The function has no
  error path. Whenever adaptive stepping is enabled, \<open>dt_min \<le> dt_max\<close> and the total
  mass is positive, the result lies in \<open>[dt_min, dt_max]\<close>.
\<close>

theorem adaptive_timestep_clamped:
  "adaptive_timestep state config M =
     (if \<not> adaptive config then dt_initial config
      else if glm_length (vsub (pos1 state) (pos2 state)) < 1 / 10 ^ 10 then dt_min config
      else std_clamp
             (safety_factor config
                * (2 * pi * sqrt (glm_length (vsub (pos1 state) (pos2 state)) ^ 3 / M))
                * (if glm_length (vsub (pos1 state) (pos2 state)) < 2 * (6 * M)
                   then (glm_length (vsub (pos1 state) (pos2 state)) / (2 * (6 * M))) ^ 2
                   else 1))
             (dt_min config) (dt_max config)) \<and>
   (adaptive config \<and> dt_min config \<le> dt_max config \<and> 0 < M \<longrightarrow>
      dt_min config \<le> adaptive_timestep state config M \<and>
      adaptive_timestep state config M \<le> dt_max config)"
  using adaptive_timestep_cases [of state config M] adaptive_timestep_range [of config state M]
  by blast

theorem adaptive_timestep_clamped_witness:
  "adaptive default_IntegratorConfig \<and>
   dt_min default_IntegratorConfig \<le> dt_max default_IntegratorConfig \<and> (0::real) < 1 \<and>
   1 / 10 ^ 6 \<le> adaptive_timestep orbit_state default_IntegratorConfig 1 \<and>
   adaptive_timestep orbit_state default_IntegratorConfig 1 \<le> 1"
proof -
  have h: "adaptive default_IntegratorConfig"
    "dt_min default_IntegratorConfig \<le> dt_max default_IntegratorConfig" "(0::real) < 1"
    by (simp_all add: default_IntegratorConfig_def)
  from adaptive_timestep_clamped [of orbit_state default_IntegratorConfig 1] h
  have "dt_min default_IntegratorConfig \<le> adaptive_timestep orbit_state default_IntegratorConfig 1
      \<and> adaptive_timestep orbit_state default_IntegratorConfig 1 \<le> dt_max default_IntegratorConfig"
    by blast
  then show ?thesis
    using h by (simp add: default_IntegratorConfig_def)
qed

subsection \<open>The final mass fraction\<close>

lemma final_mass_fraction_range:
  "0.9 \<le> final_mass_fraction eta chi1 chi2 \<and> final_mass_fraction eta chi1 chi2 \<le> 1"
  by (simp add: final_mass_fraction_def Let_def std_clamp_def)

lemma final_mass_fraction_calibrated:
  "\<bar>eta - 0.25\<bar> < 0.01 \<Longrightarrow> \<bar>(chi1 + chi2) / 2\<bar> < 0.01 \<Longrightarrow>
   final_mass_fraction eta chi1 chi2 = 0.965"
  by (simp add: final_mass_fraction_def Let_def)

text \<open>
  Claim C4: for every \<open>(eta, chi1, chi2)\<close>, \<^verbatim>\<open>final_mass_fraction\<close> returns \<open>1 - E_rad\<close>
  with \<open>0 \<le> E_rad \<le> 0.1\<close>, so the result lies in \<open>[0.9, 1]\<close>; and it returns exactly
  \<open>0.965\<close> whenever \<open>|eta - 0.25| < 0.01\<close> and \<open>|chi_eff| < 0.01\<close> for
  \<open>chi_eff = (chi1 + chi2) / 2\<close>.
\<close>

theorem final_mass_fraction_clamped:
  "(\<exists>E_rad. 0 \<le> E_rad \<and> E_rad \<le> 0.1 \<and> final_mass_fraction eta chi1 chi2 = 1 - E_rad) \<and>
   0.9 \<le> final_mass_fraction eta chi1 chi2 \<and> final_mass_fraction eta chi1 chi2 \<le> 1 \<and>
   (\<bar>eta - 0.25\<bar> < 0.01 \<and> \<bar>(chi1 + chi2) / 2\<bar> < 0.01 \<longrightarrow>
      final_mass_fraction eta chi1 chi2 = 0.965)"
proof -
  have r: "0.9 \<le> final_mass_fraction eta chi1 chi2" "final_mass_fraction eta chi1 chi2 \<le> 1"
    using final_mass_fraction_range [of eta chi1 chi2] by simp_all
  have "0 \<le> 1 - final_mass_fraction eta chi1 chi2 \<and>
        1 - final_mass_fraction eta chi1 chi2 \<le> 0.1 \<and>
        final_mass_fraction eta chi1 chi2 = 1 - (1 - final_mass_fraction eta chi1 chi2)"
    using r by simp
  then have "\<exists>E_rad. 0 \<le> E_rad \<and> E_rad \<le> 0.1 \<and> final_mass_fraction eta chi1 chi2 = 1 - E_rad"
    by blast
  then show ?thesis
    using r final_mass_fraction_calibrated [of eta chi1 chi2] by blast
qed

theorem final_mass_fraction_clamped_witness:
  "\<bar>(0.25::real) - 0.25\<bar> < 0.01 \<and> \<bar>((0::real) + 0) / 2\<bar> < 0.01 \<and>
   final_mass_fraction 0.25 0 0 = 0.965"
proof -
  have h: "\<bar>(0.25::real) - 0.25\<bar> < 0.01 \<and> \<bar>((0::real) + 0) / 2\<bar> < 0.01"
    by simp
  with final_mass_fraction_clamped [of "0.25" 0 0]
  have "final_mass_fraction 0.25 0 0 = 0.965"
    by blast
  with h show ?thesis by simp
qed

subsection \<open>Ringdown decay\<close>

lemma sqrt_scaled_pair:
  "sqrt ((e * c) * (e * c) + (e * s) * (e * s)) = \<bar>e\<bar> * sqrt (c * c + s * s)"
proof -
  have "(e * c) * (e * c) + (e * s) * (e * s) = (e * e) * (c * c + s * s)"
    by (simp add: algebra_simps)
  then show ?thesis
    by (simp add: real_sqrt_mult)
qed

lemma ringdown_strain_amplitude:
  "gw_amplitude (ringdown_strain q t D iota) =
     sqrt (h_plus (ringdown_strain q t D iota) * h_plus (ringdown_strain q t D iota)
         + h_cross (ringdown_strain q t D iota) * h_cross (ringdown_strain q t D iota))"
  by (simp add: ringdown_strain_def Let_def zero_GWStrain_def)

lemma ringdown_negative_time: "t < 0 \<Longrightarrow> ringdown_strain q t D iota = zero_GWStrain"
  by (simp add: ringdown_strain_def)

text \<open>Seen along the orbital axis, the amplitude is the bare exponential envelope.\<close>

lemma ringdown_amplitude_face_on:
  assumes "0 \<le> t" and "0 < D" and "cos iota = 1 \<or> cos iota = - 1"
  shows "gw_amplitude (ringdown_strain q t D iota) =
           \<bar>qnm_amplitude q\<bar> * exp (- t / damping_time q) / D"
proof -
  define e where "e = qnm_amplitude q * exp (- t / damping_time q) / D"
  define ph where "ph = 2 * pi * qnm_frequency q * t + qnm_phase q"
  have c2: "cos iota * cos iota = 1"
    using assms(3) by auto
  have hp: "h_plus (ringdown_strain q t D iota) = e * cos ph"
    using assms(1) by (simp add: ringdown_strain_def Let_def e_def ph_def c2)
  have hc: "h_cross (ringdown_strain q t D iota) = (e * sin ph) * cos iota"
    using assms(1) by (simp add: ringdown_strain_def Let_def e_def ph_def)
  have "(e * sin ph * cos iota) * (e * sin ph * cos iota)
          = (e * sin ph) * (e * sin ph) * (cos iota * cos iota)"
    by (simp add: algebra_simps)
  then have hc2:
    "(e * sin ph * cos iota) * (e * sin ph * cos iota) = (e * sin ph) * (e * sin ph)"
    by (simp add: c2)
  have "gw_amplitude (ringdown_strain q t D iota)
          = sqrt ((e * cos ph) * (e * cos ph) + (e * sin ph) * (e * sin ph))"
    by (simp only: ringdown_strain_amplitude hp hc hc2)
  also have "\<dots> = \<bar>e\<bar> * sqrt (cos ph * cos ph + sin ph * sin ph)"
    by (rule sqrt_scaled_pair)
  also have "cos ph * cos ph + sin ph * sin ph = 1"
    using sin_cos_squared_add2 [of ph] by (simp add: power2_eq_square)
  finally show ?thesis
    using assms(2) by (simp add: e_def abs_mult)
qed

text \<open>
  At any inclination the amplitude lies between the envelope times \<open>|cos iota|\<close> and the
  envelope times \<open>(1 + cos\<^sup>2 iota) / 2\<close>: the two polarisations carry those factors, and
  the phase decides where between them the amplitude falls.
\<close>

lemma inclination_factors:
  fixes c :: real
  shows "\<bar>c\<bar> \<le> (1 + c * c) / 2"
proof -
  have "0 \<le> (1 - \<bar>c\<bar>) * (1 - \<bar>c\<bar>)"
    by simp
  also have "\<dots> = 1 + c * c - 2 * \<bar>c\<bar>"
    by (simp add: algebra_simps)
  finally show ?thesis
    by simp
qed

lemma polarisation_norm:
  fixes a c :: real
  assumes "\<bar>c\<bar> \<le> a"
  shows "\<bar>c\<bar> \<le> sqrt ((a * cos p) * (a * cos p) + (c * sin p) * (c * sin p))"
    and "sqrt ((a * cos p) * (a * cos p) + (c * sin p) * (c * sin p)) \<le> a"
proof -
  define S where "S = (a * cos p) * (a * cos p) + (c * sin p) * (c * sin p)"
  have a: "0 \<le> a"
    using assms by linarith
  have cc: "c * c \<le> a * a"
    using assms a by (metis abs_mult_self_eq abs_ge_zero mult_mono)
  have "cos p * cos p + sin p * sin p = 1"
    using sin_cos_squared_add2 [of p] by (simp only: power2_eq_square)
  then have sc: "sin p * sin p = 1 - cos p * cos p"
    by linarith
  have cs: "cos p * cos p = 1 - sin p * sin p"
    using sc by simp
  have "S - c * c = (a * a - c * c) * (cos p * cos p)"
    by (simp add: S_def sc algebra_simps)
  also have "0 \<le> \<dots>"
    using cc by simp
  finally have lo: "\<bar>c\<bar>\<^sup>2 \<le> S"
    by (simp add: power2_eq_square)
  have "a * a - S = (a * a - c * c) * (sin p * sin p)"
    by (simp add: S_def cs algebra_simps)
  also have "0 \<le> \<dots>"
    using cc by simp
  finally have hi: "S \<le> a\<^sup>2"
    by (simp add: power2_eq_square)
  show "\<bar>c\<bar> \<le> sqrt ((a * cos p) * (a * cos p) + (c * sin p) * (c * sin p))"
    using lo unfolding S_def by (rule real_le_rsqrt)
  show "sqrt ((a * cos p) * (a * cos p) + (c * sin p) * (c * sin p)) \<le> a"
    using a hi unfolding S_def by (rule real_le_lsqrt)
qed

lemma ringdown_amplitude_bounds:
  assumes "0 \<le> t" and "0 < D"
  shows "\<bar>qnm_amplitude q\<bar> * exp (- t / damping_time q) / D * \<bar>cos iota\<bar>
           \<le> gw_amplitude (ringdown_strain q t D iota)"
    and "gw_amplitude (ringdown_strain q t D iota)
           \<le> \<bar>qnm_amplitude q\<bar> * exp (- t / damping_time q) / D
              * ((1 + cos iota * cos iota) / 2)"
proof -
  define e where "e = qnm_amplitude q * exp (- t / damping_time q) / D"
  define ph where "ph = 2 * pi * qnm_frequency q * t + qnm_phase q"
  define a where "a = (1 + cos iota * cos iota) / 2"
  define c where "c = cos iota"
  have hp: "h_plus (ringdown_strain q t D iota) = e * (a * cos ph)"
    using assms(1) by (simp add: ringdown_strain_def Let_def e_def ph_def a_def)
  have hc: "h_cross (ringdown_strain q t D iota) = e * (c * sin ph)"
    using assms(1) by (simp add: ringdown_strain_def Let_def e_def ph_def c_def)
  have ca: "\<bar>c\<bar> \<le> a"
    unfolding a_def c_def by (rule inclination_factors)
  have amp: "gw_amplitude (ringdown_strain q t D iota)
          = \<bar>e\<bar> * sqrt ((a * cos ph) * (a * cos ph) + (c * sin ph) * (c * sin ph))"
    by (simp only: ringdown_strain_amplitude hp hc sqrt_scaled_pair)
  have e: "\<bar>e\<bar> = \<bar>qnm_amplitude q\<bar> * exp (- t / damping_time q) / D"
    using assms(2) by (simp add: e_def abs_mult)
  have "\<bar>e\<bar> * \<bar>c\<bar> \<le> \<bar>e\<bar> * sqrt ((a * cos ph) * (a * cos ph) + (c * sin ph) * (c * sin ph))"
    using polarisation_norm(1) [OF ca] by (rule mult_left_mono) simp
  then show "\<bar>qnm_amplitude q\<bar> * exp (- t / damping_time q) / D * \<bar>cos iota\<bar>
           \<le> gw_amplitude (ringdown_strain q t D iota)"
    by (simp only: amp e [symmetric] c_def)
  have "\<bar>e\<bar> * sqrt ((a * cos ph) * (a * cos ph) + (c * sin ph) * (c * sin ph)) \<le> \<bar>e\<bar> * a"
    using polarisation_norm(2) [OF ca] by (rule mult_left_mono) simp
  then show "gw_amplitude (ringdown_strain q t D iota)
           \<le> \<bar>qnm_amplitude q\<bar> * exp (- t / damping_time q) / D
              * ((1 + cos iota * cos iota) / 2)"
    by (simp only: amp e [symmetric] a_def)
qed

lemma sqrt_25_64: "sqrt (25 / 64) = 5 / 8"
  by (rule real_sqrt_unique) (simp_all add: power2_eq_square)

lemma inclined_amplitude_0:
  "gw_amplitude (ringdown_strain quarter_cycle_qnm 0 1 (pi / 3)) = 5 / 8"
  by (simp add: ringdown_strain_def quarter_cycle_qnm_def Let_def cos_60 sqrt_25_64)

lemma inclined_amplitude_tau:
  "gw_amplitude (ringdown_strain quarter_cycle_qnm 1 1 (pi / 3)) = exp (- 1) / 2"
  by (simp add: ringdown_strain_def quarter_cycle_qnm_def Let_def cos_60)

text \<open>
  Claim C9, as stated: for every QNM parameter set with positive damping time \<open>\<tau>\<close>,
  observer distance and inclination, the amplitude at \<open>t = \<tau>\<close> is the amplitude at
  \<open>t = 0\<close> divided by \<open>e\<close> to within 10 percent. At the inclination \<open>pi / 3\<close>, with
  \<open>\<tau> = 1\<close> and a quarter cycle per damping time, the amplitude is \<open>5 / 8\<close> at \<open>t = 0\<close>,
  where the plus polarisation carries it with the factor \<open>(1 + cos\<^sup>2 iota) / 2 = 5 / 8\<close>,
  and \<open>1 / (2 * e)\<close> at \<open>t = \<tau>\<close>, where the cross polarisation carries it with the
  factor \<open>cos iota = 1 / 2\<close>: 20 percent below \<open>5 / (8 * e)\<close>.
\<close>

theorem ringdown_amplitude_inclined:
  "0 < damping_time quarter_cycle_qnm \<and> (0::real) < 1 \<and> 0 < pi / 3 \<and>
   \<not> \<bar>gw_amplitude (ringdown_strain quarter_cycle_qnm (damping_time quarter_cycle_qnm) 1 (pi / 3))
        - gw_amplitude (ringdown_strain quarter_cycle_qnm 0 1 (pi / 3)) / exp 1\<bar>
      \<le> 0.1 * (gw_amplitude (ringdown_strain quarter_cycle_qnm 0 1 (pi / 3)) / exp 1)"
proof -
  have tau: "damping_time quarter_cycle_qnm = 1"
    by (simp add: quarter_cycle_qnm_def)
  have "exp (- 1) / 2 - 5 / 8 / exp 1 = - (1 / 8 / exp (1::real))"
    by (simp add: exp_minus field_simps)
  then have "\<bar>exp (- 1) / 2 - 5 / 8 / exp (1::real)\<bar> = 1 / 8 / exp 1"
    by simp
  moreover have "\<not> 1 / 8 / exp (1::real) \<le> 0.1 * (5 / 8 / exp 1)"
    by (simp add: field_simps)
  ultimately show ?thesis
    by (simp add: tau inclined_amplitude_0 inclined_amplitude_tau)
qed

text \<open>
  Claim C9, amended: for every QNM parameter set with positive damping time \<open>\<tau>\<close> and
  every positive observer distance: at every inclination with
  \<open>1 + cos\<^sup>2 iota \<le> 2.2 * |cos iota|\<close> the amplitude at \<open>t = \<tau>\<close> is the amplitude at
  \<open>t = 0\<close> divided by \<open>e\<close> to within 10 percent; at every inclination with
  \<open>(1 + cos\<^sup>2 iota) / 2 < e\<^sup>2 * |cos iota|\<close>, when the QNM amplitude is not zero, the
  amplitude at \<open>3 * \<tau>\<close> is strictly below the amplitude at \<open>\<tau>\<close>; for negative \<open>t\<close> the
  strain is all-zero, at every inclination.
\<close>

theorem ringdown_amplitude_decay:
  assumes "0 < damping_time q" and "0 < D"
  shows "(1 + cos iota * cos iota \<le> 2.2 * \<bar>cos iota\<bar> \<longrightarrow>
            \<bar>gw_amplitude (ringdown_strain q (damping_time q) D iota)
               - gw_amplitude (ringdown_strain q 0 D iota) / exp 1\<bar>
              \<le> 0.1 * (gw_amplitude (ringdown_strain q 0 D iota) / exp 1))
       \<and> (qnm_amplitude q \<noteq> 0 \<and> (1 + cos iota * cos iota) / 2 < exp 2 * \<bar>cos iota\<bar> \<longrightarrow>
            gw_amplitude (ringdown_strain q (3 * damping_time q) D iota)
              < gw_amplitude (ringdown_strain q (damping_time q) D iota))
       \<and> (t < 0 \<longrightarrow> ringdown_strain q t D iota' =
            \<lparr>h_plus = 0, h_cross = 0, gw_amplitude = 0, gw_frequency = 0\<rparr>)"
proof -
  define K where "K = \<bar>qnm_amplitude q\<bar> / D"
  define c where "c = \<bar>cos iota\<bar>"
  define a where "a = (1 + cos iota * cos iota) / 2"
  define amp0 where "amp0 = gw_amplitude (ringdown_strain q 0 D iota)"
  define amp1 where "amp1 = gw_amplitude (ringdown_strain q (damping_time q) D iota)"
  define amp3 where "amp3 = gw_amplitude (ringdown_strain q (3 * damping_time q) D iota)"
  have K: "0 \<le> K"
    using assms(2) by (simp add: K_def)
  have tau: "0 \<le> damping_time q" "0 \<le> 3 * damping_time q"
    using assms(1) by simp_all
  have l0: "K * c \<le> amp0" and u0: "amp0 \<le> K * a"
    using ringdown_amplitude_bounds [of 0 D q iota] assms(2)
    by (simp_all add: K_def c_def a_def amp0_def)
  have l1: "K * exp (- 1) * c \<le> amp1" and u1: "amp1 \<le> K * exp (- 1) * a"
    using ringdown_amplitude_bounds [OF tau(1) assms(2), of q iota] assms(1)
    by (simp_all add: K_def c_def a_def amp1_def)
  have l3: "K * exp (- 3) * c \<le> amp3" and u3: "amp3 \<le> K * exp (- 3) * a"
    using ringdown_amplitude_bounds [OF tau(2) assms(2), of q iota] assms(1)
    by (simp_all add: K_def c_def a_def amp3_def)
  have near: "\<bar>amp1 - amp0 / exp 1\<bar> \<le> 0.1 * (amp0 / exp 1)" if h: "2 * a \<le> 2.2 * c"
  proof -
    define P where "P = K * exp (- 1) * c"
    define Q where "Q = K * exp (- 1) * a"
    have "K * exp (- 1) * (2 * a) \<le> K * exp (- 1) * (2.2 * c)"
      using h K by (intro mult_left_mono) simp_all
    then have pq: "Q \<le> 1.1 * P"
      by (simp add: P_def Q_def)
    have "amp0 / exp 1 = amp0 * exp (- 1)"
      by (simp add: exp_minus divide_inverse)
    moreover have "K * c * exp (- 1) \<le> amp0 * exp (- 1)"
      using l0 by (intro mult_right_mono) simp_all
    moreover have "amp0 * exp (- 1) \<le> K * a * exp (- 1)"
      using u0 by (intro mult_right_mono) simp_all
    ultimately have "P \<le> amp0 / exp 1" and "amp0 / exp 1 \<le> Q"
      by (simp_all add: P_def Q_def mult.commute mult.left_commute)
    moreover have "P \<le> amp1" and "amp1 \<le> Q"
      using l1 u1 by (simp_all add: P_def Q_def)
    ultimately show ?thesis
      using pq by linarith
  qed
  have dec: "amp3 < amp1" if A: "qnm_amplitude q \<noteq> 0" and h: "a < exp 2 * c"
  proof -
    have Kp: "0 < K * exp (- 3)"
      using A assms(2) by (simp add: K_def)
    have lt: "K * exp (- 3) * a < K * exp (- 3) * (exp 2 * c)"
      using h Kp by (simp only: mult_less_cancel_left_pos)
    have e: "exp (- 3) * exp 2 = exp (- (1::real))"
      by (simp add: exp_add [symmetric])
    have "K * exp (- 3) * (exp 2 * c) = K * (exp (- 3) * exp 2) * c"
      by (simp only: mult.assoc)
    then have "K * exp (- 3) * (exp 2 * c) = K * exp (- 1) * c"
      by (simp only: e)
    then show ?thesis
      using lt u3 l1 by linarith
  qed
  have h1: "2 * a = 1 + cos iota * cos iota"
    by (simp add: a_def)
  show ?thesis
    using near dec
    by (simp add: h1 [symmetric] c_def [symmetric] amp0_def [symmetric] amp1_def [symmetric]
        amp3_def [symmetric] ringdown_negative_time zero_GWStrain_def)
qed

theorem ringdown_amplitude_decay_witness:
  "0 < damping_time quarter_cycle_qnm \<and> (0::real) < 1 \<and>
   1 + cos (arccos (4 / 5)) * cos (arccos (4 / 5)) \<le> 2.2 * \<bar>cos (arccos (4 / 5))\<bar> \<and>
   qnm_amplitude quarter_cycle_qnm \<noteq> 0 \<and>
   (1 + cos (arccos (4 / 5)) * cos (arccos (4 / 5))) / 2 < exp 2 * \<bar>cos (arccos (4 / 5))\<bar> \<and>
   (- 1::real) < 0 \<and>
   \<bar>gw_amplitude (ringdown_strain quarter_cycle_qnm (damping_time quarter_cycle_qnm) 1
                    (arccos (4 / 5)))
      - gw_amplitude (ringdown_strain quarter_cycle_qnm 0 1 (arccos (4 / 5))) / exp 1\<bar>
     \<le> 0.1 * (gw_amplitude (ringdown_strain quarter_cycle_qnm 0 1 (arccos (4 / 5))) / exp 1) \<and>
   gw_amplitude (ringdown_strain quarter_cycle_qnm (3 * damping_time quarter_cycle_qnm) 1
                    (arccos (4 / 5)))
     < gw_amplitude (ringdown_strain quarter_cycle_qnm (damping_time quarter_cycle_qnm) 1
                    (arccos (4 / 5))) \<and>
   ringdown_strain quarter_cycle_qnm (- 1) 1 (pi / 2) =
     \<lparr>h_plus = 0, h_cross = 0, gw_amplitude = 0, gw_frequency = 0\<rparr>"
proof -
  have h: "0 < damping_time quarter_cycle_qnm" "(0::real) < 1"
    and a: "qnm_amplitude quarter_cycle_qnm \<noteq> 0" and t: "(- 1::real) < 0"
    by (simp_all add: quarter_cycle_qnm_def)
  have c: "cos (arccos (4 / 5)) = 4 / 5"
    by simp
  have i1: "1 + cos (arccos (4 / 5)) * cos (arccos (4 / 5)) \<le> 2.2 * \<bar>cos (arccos (4 / 5))\<bar>"
    by (simp add: c)
  have "1 + 2 \<le> exp (2::real)"
    by (rule exp_ge_add_one_self)
  then have i2: "(1 + cos (arccos (4 / 5)) * cos (arccos (4 / 5))) / 2
                   < exp 2 * \<bar>cos (arccos (4 / 5))\<bar>"
    by (simp add: c)
  note inst = ringdown_amplitude_decay [OF h, of "arccos (4 / 5)" "- 1" "pi / 2"]
  from inst i1 have n: "\<bar>gw_amplitude (ringdown_strain quarter_cycle_qnm (damping_time quarter_cycle_qnm) 1
                    (arccos (4 / 5)))
      - gw_amplitude (ringdown_strain quarter_cycle_qnm 0 1 (arccos (4 / 5))) / exp 1\<bar>
     \<le> 0.1 * (gw_amplitude (ringdown_strain quarter_cycle_qnm 0 1 (arccos (4 / 5))) / exp 1)"
    by blast
  from inst a i2 have d: "gw_amplitude (ringdown_strain quarter_cycle_qnm (3 * damping_time quarter_cycle_qnm) 1
                    (arccos (4 / 5)))
     < gw_amplitude (ringdown_strain quarter_cycle_qnm (damping_time quarter_cycle_qnm) 1
                    (arccos (4 / 5)))"
    by blast
  from inst t have z: "ringdown_strain quarter_cycle_qnm (- 1) 1 (pi / 2) =
     \<lparr>h_plus = 0, h_cross = 0, gw_amplitude = 0, gw_frequency = 0\<rparr>"
    by blast
  from h i1 a i2 t n d z show ?thesis
    by blast
qed

subsection \<open>The inspiral loop as a loop with invariant\<close>

lemma step_count_record_frame: "step_count (record_frame config L) = step_count L"
  by (simp add: record_frame_def Let_def)

lemma inspiral_body_continue:
  "\<not> snd (inspiral_body config deriv tm L) \<Longrightarrow>
   step_count (fst (inspiral_body config deriv tm L)) = step_count L + 1 \<and>
   step_count L + 1 \<le> 2000000000"
  by (simp add: inspiral_body_def Let_def step_count_record_frame split: if_splits)

text \<open>
  A rule for the inspiral loop: an invariant \<open>I\<close> of the passes that do not break gives
  \<open>Q\<close> on exit, when \<open>Q\<close> holds after a pass that breaks and at a loop head where the
  loop condition fails.
\<close>

lemma inspiral_loop_rule:
  assumes "I L"
    and "\<And>L. I L \<Longrightarrow> time (cur_state L) < max_time config \<Longrightarrow>
                  \<not> snd (inspiral_body config deriv tm L) \<Longrightarrow>
                  I (fst (inspiral_body config deriv tm L))"
    and "\<And>L. I L \<Longrightarrow> time (cur_state L) < max_time config \<Longrightarrow>
                  snd (inspiral_body config deriv tm L) \<Longrightarrow>
                  Q (fst (inspiral_body config deriv tm L))"
    and "\<And>L. I L \<Longrightarrow> \<not> time (cur_state L) < max_time config \<Longrightarrow> Q L"
  shows "Q (inspiral_loop config deriv tm L)"
  using assms
proof (induction config deriv tm L rule: inspiral_loop.induct)
  case (1 config deriv total_mass L)
  note init = "1.prems"(1) and inv = "1.prems"(2) and brk = "1.prems"(3)
    and ext = "1.prems"(4)
  show ?case
  proof (cases "time (cur_state L) < max_time config")
    case False
    then show ?thesis
      using init ext [of L] by (subst inspiral_loop.simps) simp
  next
    case t: True
    show ?thesis
    proof (cases "snd (inspiral_body config deriv total_mass L)")
      case True
      then show ?thesis
        using t init brk [of L] by (subst inspiral_loop.simps) simp
    next
      case False
      then have "I (fst (inspiral_body config deriv total_mass L))"
        using t init inv [of L] by simp
      then have "Q (inspiral_loop config deriv total_mass
                      (fst (inspiral_body config deriv total_mass L)))"
        using "1.IH" [OF t False _ inv brk ext] by blast
      then show ?thesis
        using t False by (subst inspiral_loop.simps) simp
    qed
  qed
qed

subsection \<open>Steps, frames and the merger flag of a run\<close>

lemma smul_0: "smul 0 v = Vec3 0 0 0"
  by (cases v) simp

lemma vadd_0: "vadd v (Vec3 0 0 0) = v"
  by (cases v) simp

lemma rk4_step_zero: "rk4_step s 0 d = s"
  by (simp add: rk4_step_def Let_def smul_0 vadd_0)

lemma record_frame_keeps:
  "cur_state (record_frame config L) = cur_state L"
  "cur_bh1 (record_frame config L) = cur_bh1 L"
  "cur_bh2 (record_frame config L) = cur_bh2 L"
  "res_merger_occurred (record_frame config L) = res_merger_occurred L"
  "res_merger_time (record_frame config L) = res_merger_time L"
  by (simp_all add: record_frame_def Let_def)

lemma inspiral_step_bound:
  "step_count L \<le> 2000000000 \<Longrightarrow>
   step_count (inspiral_loop config deriv tm L) \<le> 2000000001"
proof (rule inspiral_loop_rule [where I = "\<lambda>L. step_count L \<le> 2000000000"])
  fix L :: InspiralVars
  assume "step_count L \<le> 2000000000"
  then show "step_count (fst (inspiral_body config deriv tm L)) \<le> 2000000001"
    by (simp add: inspiral_body_def Let_def step_count_record_frame)
next
  fix L :: InspiralVars
  assume "\<not> snd (inspiral_body config deriv tm L)"
  from inspiral_body_continue [OF this]
  show "step_count (fst (inspiral_body config deriv tm L)) \<le> 2000000000"
    by simp
qed simp_all

lemma inspiral_merger_outcome:
  "\<not> res_merger_occurred L \<Longrightarrow> merger_outcome config (inspiral_loop config deriv tm L)"
proof (rule inspiral_loop_rule [where I = "\<lambda>L. \<not> res_merger_occurred L"])
  fix L :: InspiralVars
  assume "\<not> res_merger_occurred L" "time (cur_state L) < max_time config"
    "snd (inspiral_body config deriv tm L)"
  then show "merger_outcome config (fst (inspiral_body config deriv tm L))"
    by (simp add: inspiral_body_def Let_def merger_outcome_def record_frame_keeps
        step_count_record_frame split: if_splits)
next
  fix L :: InspiralVars
  assume "\<not> res_merger_occurred L" "\<not> snd (inspiral_body config deriv tm L)"
  then show "\<not> res_merger_occurred (fst (inspiral_body config deriv tm L))"
    by (simp add: inspiral_body_def Let_def record_frame_keeps split: if_splits)
next
  fix L :: InspiralVars
  assume "\<not> res_merger_occurred L" "\<not> time (cur_state L) < max_time config"
  then show "merger_outcome config L"
    by (simp add: merger_outcome_def)
qed simp

lemma run_inspiral_step_bound: "step_count (run_inspiral config) \<le> 2000000001"
  unfolding run_inspiral_def Let_def
  by (rule inspiral_step_bound) (simp add: initial_vars_def)

lemma run_inspiral_merger_outcome: "merger_outcome config (run_inspiral config)"
  unfolding run_inspiral_def Let_def
  by (rule inspiral_merger_outcome) (simp add: initial_vars_def)


lemma run_simulation_merger_occurred:
  "merger_occurred (run_simulation config) = res_merger_occurred (run_inspiral config)"
  by (simp add: run_simulation_def Let_def)

lemma run_simulation_frame_count:
  "length (frames (run_simulation config)) =
     length (res_frames (run_inspiral config)) +
     (if merger_occurred (run_simulation config) then nat (ringdown_samples config) else 0)"
  by (simp add: run_simulation_def Let_def)

lemma run_simulation_num_ringdown_frames:
  "num_ringdown_frames (run_simulation config) =
     (if merger_occurred (run_simulation config) then ringdown_samples config else 0)"
  by (simp add: run_simulation_def Let_def)

text \<open>The stalled run.\<close>

lemma default_init:
  "fst (init_binary default_BinaryConfig) =
     \<lparr>mass = 0.5, chi = 0, position = Vec3 10 0 0, velocity = Vec3 0 0 (sqrt (1 / 20) / 2),
      spin_axis = Vec3 0 1 0\<rparr>"
  "snd (init_binary default_BinaryConfig) =
     \<lparr>mass = 0.5, chi = 0, position = Vec3 (- 10) 0 0,
      velocity = Vec3 0 0 (- (sqrt (1 / 20) / 2)), spin_axis = Vec3 0 1 0\<rparr>"
  by (simp_all add: init_binary_def default_BinaryConfig_def Let_def glm_normalize_def)

lemma stalled_no_merge:
  assumes "mass b1 = 0.5" and "mass b2 = 0.5"
  shows "\<not> should_merge_default
             (b1\<lparr>position := pos1 stalled_state, velocity := vel1 stalled_state\<rparr>)
             (b2\<lparr>position := pos2 stalled_state, velocity := vel2 stalled_state\<rparr>)"
proof -
  have "sqrt (1 / 20) \<le> sqrt 4"
    by (simp only: real_sqrt_le_iff)
  then have "sqrt (1 / 20) \<le> 2"
    by simp
  then show ?thesis
    using assms
    by (simp add: should_merge_default_def should_merge_def schwarzschild_radius_def
        stalled_state_def glm_length_def Let_def)
qed

lemma stalled_body:
  assumes "stalled L"
  shows "cur_state (fst (inspiral_body stalled_config deriv tm L)) = stalled_state"
    and "mass (cur_bh1 (fst (inspiral_body stalled_config deriv tm L))) = 0.5"
    and "mass (cur_bh2 (fst (inspiral_body stalled_config deriv tm L))) = 0.5"
    and "step_count (fst (inspiral_body stalled_config deriv tm L)) = step_count L + 1"
    and "snd (inspiral_body stalled_config deriv tm L) \<longleftrightarrow> 2000000000 < step_count L + 1"
proof -
  from assms have s: "cur_state L = stalled_state" and m: "mass (cur_bh1 L) = 0.5"
    "mass (cur_bh2 L) = 0.5"
    by (simp_all add: stalled_def)
  note nm = stalled_no_merge [OF m]
  have dt: "adaptive_timestep st (integrator stalled_config) tm = 0" for st
    by (simp add: adaptive_timestep_def stalled_config_def)
  show "cur_state (fst (inspiral_body stalled_config deriv tm L)) = stalled_state"
    and "mass (cur_bh1 (fst (inspiral_body stalled_config deriv tm L))) = 0.5"
    and "mass (cur_bh2 (fst (inspiral_body stalled_config deriv tm L))) = 0.5"
    and "step_count (fst (inspiral_body stalled_config deriv tm L)) = step_count L + 1"
    and "snd (inspiral_body stalled_config deriv tm L) \<longleftrightarrow> 2000000000 < step_count L + 1"
    using nm m
    by (simp_all add: inspiral_body_def Let_def s record_frame_keeps step_count_record_frame
        dt rk4_step_zero)
qed

lemma stalled_loop:
  "stalled L \<Longrightarrow> step_count (inspiral_loop stalled_config deriv tm L) = 2000000001"
proof (rule inspiral_loop_rule [where I = stalled])
  fix L :: InspiralVars
  assume "stalled L" "\<not> snd (inspiral_body stalled_config deriv tm L)"
  then show "stalled (fst (inspiral_body stalled_config deriv tm L))"
    using stalled_body [of L deriv tm] by (simp add: stalled_def)
next
  fix L :: InspiralVars
  assume a: "stalled L" "snd (inspiral_body stalled_config deriv tm L)"
  then have "step_count L \<le> 2000000000"
    by (simp add: stalled_def)
  then show "step_count (fst (inspiral_body stalled_config deriv tm L)) = 2000000001"
    using stalled_body [OF a(1), of deriv tm] a(2) by simp
next
  fix L :: InspiralVars
  assume "stalled L" "\<not> time (cur_state L) < max_time stalled_config"
  then show "step_count L = 2000000001"
    by (simp add: stalled_def stalled_state_def stalled_config_def default_SimulationConfig_def)
qed simp

lemma binary_stalled_config: "binary stalled_config = default_BinaryConfig"
  by (simp add: stalled_config_def default_SimulationConfig_def)

lemma stalled_run: "step_count (run_inspiral stalled_config) = 2000000001"
proof -
  have "stalled (initial_vars stalled_config (fst (init_binary (binary stalled_config)))
                   (snd (init_binary (binary stalled_config))))"
    by (simp add: stalled_def initial_vars_def binary_stalled_config default_init
        stalled_state_def)
  then show ?thesis
    by (simp add: run_inspiral_def Let_def stalled_loop)
qed

text \<open>The idle run.\<close>

lemma idle_run:
  "run_inspiral idle_config =
     initial_vars idle_config (fst (init_binary (binary idle_config)))
       (snd (init_binary (binary idle_config)))"
proof -
  have "\<not> time (cur_state (initial_vars idle_config b1 b2)) < max_time idle_config" for b1 b2
    by (simp add: initial_vars_def idle_config_def)
  then show ?thesis
    unfolding run_inspiral_def Let_def by (subst inspiral_loop.simps) simp
qed

text \<open>The run that merges in its first pass.\<close>

lemma binary_close_config:
  "binary close_config =
     default_BinaryConfig\<lparr>binary_m1 := 2, binary_m2 := 3, initial_separation := 1\<rparr>"
  by (simp add: close_config_def)

lemma close_init:
  "fst (init_binary (binary close_config)) =
     \<lparr>mass = 2, chi = 0, position = Vec3 (3 / 5) 0 0, velocity = Vec3 0 0 (sqrt 5 * 3 / 5),
      spin_axis = Vec3 0 1 0\<rparr>"
  "snd (init_binary (binary close_config)) =
     \<lparr>mass = 3, chi = 0, position = Vec3 (- (2 / 5)) 0 0,
      velocity = Vec3 0 0 (- (sqrt 5 * 2 / 5)), spin_axis = Vec3 0 1 0\<rparr>"
  by (simp_all add: init_binary_def binary_close_config default_BinaryConfig_def Let_def
      glm_normalize_def)

lemma close_body:
  "snd (inspiral_body close_config deriv tm
          (initial_vars close_config (fst (init_binary (binary close_config)))
             (snd (init_binary (binary close_config)))))"
  "res_merger_occurred (fst (inspiral_body close_config deriv tm
          (initial_vars close_config (fst (init_binary (binary close_config)))
             (snd (init_binary (binary close_config))))))"
  "map (\<lambda>f. (mass (frame_bh1 f), mass (frame_bh2 f), frame_phase f))
     (res_frames (fst (inspiral_body close_config deriv tm
          (initial_vars close_config (fst (init_binary (binary close_config)))
             (snd (init_binary (binary close_config))))))) = [(2, 3, 1)]"
  by (simp_all add: inspiral_body_def Let_def initial_vars_def close_init
      should_merge_default_def should_merge_def schwarzschild_radius_def glm_length_def
      make_frame_def)

lemma close_run:
  "res_merger_occurred (run_inspiral close_config)"
  "map (\<lambda>f. (mass (frame_bh1 f), mass (frame_bh2 f), frame_phase f))
     (res_frames (run_inspiral close_config)) = [(2, 3, 1)]"
proof -
  let ?L = "initial_vars close_config (fst (init_binary (binary close_config)))
              (snd (init_binary (binary close_config)))"
  have t: "time (cur_state ?L) < max_time close_config"
    by (simp add: initial_vars_def close_config_def default_SimulationConfig_def)
  have loop: "inspiral_loop close_config deriv tm ?L
                = fst (inspiral_body close_config deriv tm ?L)" for deriv tm
    by (subst inspiral_loop.simps) (simp only: t close_body if_True)
  show "res_merger_occurred (run_inspiral close_config)"
    by (simp only: run_inspiral_def Let_def loop close_body)
  show "map (\<lambda>f. (mass (frame_bh1 f), mass (frame_bh2 f), frame_phase f))
     (res_frames (run_inspiral close_config)) = [(2, 3, 1)]"
    by (simp only: run_inspiral_def Let_def loop close_body)
qed

lemma close_run_length: "length (res_frames (run_inspiral close_config)) = 1"
  using arg_cong [OF close_run(2), of length] by simp

text \<open>
  Claim C8, as stated: the inspiral loop exits after at most \<open>2 * 10^9\<close> steps. The
  loop breaks when \<open>step_count > 2000000000\<close>, tested after the increment, so a run that
  neither merges nor reaches \<^verbatim>\<open>max_time\<close> takes one step more: with adaptive stepping
  off and \<^verbatim>\<open>dt_initial = 0\<close> the state never advances and the loop ends at
  \<open>step_count = 2000000001\<close>.
\<close>

theorem inspiral_steps_exceed_ceiling:
  "step_count (run_inspiral stalled_config) = 2000000001 \<and>
   \<not> step_count (run_inspiral stalled_config) \<le> 2000000000"
  by (simp add: stalled_run)

text \<open>
  Claim C8, amended: \<^verbatim>\<open>run_simulation\<close> terminates for every configuration (the loop
  is a total function, by the termination proof of \<open>inspiral_loop\<close>): the inspiral loop
  takes at most \<open>2 * 10^9 + 1\<close> steps even if neither merger nor \<^verbatim>\<open>max_time\<close> is
  reached; after a merger the ringdown phase adds exactly \<^verbatim>\<open>ringdown_samples\<close> frames
  (none for a count below 1) and without merger it adds none; a run whose loop ends at
  \<open>time \<ge> max_time\<close> returns an ordinary result with \<^verbatim>\<open>merger_occurred = false\<close>, and
  a run without merger ended at \<open>time \<ge> max_time\<close> or at the step ceiling.
\<close>

theorem run_simulation_terminates:
  "step_count (run_inspiral config) \<le> 2000000001 \<and>
   merger_occurred (run_simulation config) = res_merger_occurred (run_inspiral config) \<and>
   length (frames (run_simulation config)) =
     length (res_frames (run_inspiral config)) +
     (if merger_occurred (run_simulation config) then nat (ringdown_samples config) else 0) \<and>
   num_ringdown_frames (run_simulation config) =
     (if merger_occurred (run_simulation config) then ringdown_samples config else 0) \<and>
   (max_time config \<le> time (cur_state (run_inspiral config)) \<longrightarrow>
      \<not> merger_occurred (run_simulation config)) \<and>
   (\<not> merger_occurred (run_simulation config) \<longrightarrow>
      max_time config \<le> time (cur_state (run_inspiral config)) \<or>
      2000000000 < step_count (run_inspiral config))"
  using run_inspiral_merger_outcome [of config] run_simulation_frame_count [of config]
  by (simp add: run_inspiral_step_bound run_simulation_merger_occurred
      run_simulation_num_ringdown_frames merger_outcome_def split: if_splits)

theorem run_simulation_terminates_witness:
  "max_time idle_config \<le> time (cur_state (run_inspiral idle_config)) \<and>
   \<not> merger_occurred (run_simulation idle_config) \<and>
   length (frames (run_simulation idle_config)) = 0 \<and>
   merger_occurred (run_simulation close_config) \<and>
   length (frames (run_simulation close_config)) = 501 \<and>
   num_ringdown_frames (run_simulation close_config) = 500"
proof -
  have mt: "max_time idle_config = 0"
    by (simp add: idle_config_def)
  have i: "max_time idle_config \<le> time (cur_state (run_inspiral idle_config))"
    and f: "length (res_frames (run_inspiral idle_config)) = 0"
    by (simp_all add: idle_run initial_vars_def mt)
  have c: "ringdown_samples close_config = 500"
    by (simp add: close_config_def default_SimulationConfig_def)
  note idle = run_simulation_terminates [of idle_config]
  note close = run_simulation_terminates [of close_config]
  from idle i have a: "\<not> merger_occurred (run_simulation idle_config)"
    by blast
  from idle have "length (frames (run_simulation idle_config)) =
      length (res_frames (run_inspiral idle_config)) +
      (if merger_occurred (run_simulation idle_config)
       then nat (ringdown_samples idle_config) else 0)"
    by blast
  with a f have b: "length (frames (run_simulation idle_config)) = 0"
    by simp
  from close close_run(1) have d: "merger_occurred (run_simulation close_config)"
    by blast
  from close have "length (frames (run_simulation close_config)) =
      length (res_frames (run_inspiral close_config)) +
      (if merger_occurred (run_simulation close_config)
       then nat (ringdown_samples close_config) else 0)"
    and "num_ringdown_frames (run_simulation close_config) =
      (if merger_occurred (run_simulation close_config)
       then ringdown_samples close_config else 0)"
    by blast+
  with d c close_run_length
  have e: "length (frames (run_simulation close_config)) = 501"
    "num_ringdown_frames (run_simulation close_config) = 500"
    by simp_all
  from i a b d e show ?thesis
    by blast
qed


subsection \<open>Masses of the evolved bodies\<close>











subsection \<open>The remnant\<close>

lemma glm_dot_self_zero: "glm_dot v v = 0 \<longleftrightarrow> v = Vec3 0 0 0"
  by (cases v) (simp add: add_nonneg_eq_0_iff)

lemma glm_length_zero_iff: "glm_length v = 0 \<longleftrightarrow> v = Vec3 0 0 0"
  by (simp add: glm_length_def glm_dot_self_zero)

lemma glm_dot_self_nonneg: "0 \<le> glm_dot v v"
  by (cases v) simp

lemma glm_normalize_sdiv: "glm_normalize v = sdiv v (glm_length v)"
  by (cases v) (simp add: glm_normalize_def glm_length_def)

lemma glm_length_unit:
  assumes "v \<noteq> Vec3 0 0 0"
  shows "glm_length (sdiv v (glm_length v)) = 1"
proof -
  obtain a b c where v: "v = Vec3 a b c"
    by (cases v)
  define s where "s = sqrt (a * a + b * b + c * c)"
  have pos: "0 < a * a + b * b + c * c"
    using assms glm_dot_self_zero [of v] glm_dot_self_nonneg [of v] by (simp add: v less_le)
  then have s0: "s \<noteq> 0" and ss: "s * s = a * a + b * b + c * c"
    by (simp_all add: s_def)
  have "(a / s) * (a / s) + (b / s) * (b / s) + (c / s) * (c / s)
          = (a * a + b * b + c * c) / (s * s)"
    by (simp add: add_divide_distrib)
  also have "\<dots> = 1"
    using s0 by (simp add: ss [symmetric])
  finally show ?thesis
    by (simp add: v glm_length_def s_def [symmetric])
qed

lemma symmetric_ratio_bound:
  fixes a b :: real
  assumes "a + b \<noteq> 0"
  shows "0 \<le> 1 - 4 * (a * b / ((a + b) * (a + b)))"
proof -
  define d where "d = (a + b) * (a + b)"
  have d: "d \<noteq> 0" "0 \<le> d"
    using assms by (simp_all add: d_def)
  have "d - 4 * (a * b) = (a - b) * (a - b)"
    by (simp add: d_def algebra_simps)
  then have "1 - 4 * (a * b / d) = ((a - b) * (a - b)) / d"
    using d(1) by (simp add: field_simps)
  also have "0 \<le> \<dots>"
    using d(2) by simp
  finally show ?thesis
    by (simp add: d_def)
qed

lemma compute_remnant_velocity_eq:
  "rem_velocity (compute_remnant bh1 bh2) =
     vadd (sdiv (vadd (smul (mass bh1) (velocity bh1)) (smul (mass bh2) (velocity bh2)))
                (mass bh1 + mass bh2))
          (smul (kick_velocity (compute_remnant bh1 bh2))
                (glm_normalize (glm_cross (vsub (position bh1) (position bh2))
                                  (vsub (velocity bh1) (velocity bh2)))))"
  by (simp add: compute_remnant_def Let_def)

text \<open>
  In exact arithmetic, when \<open>r \<times> v\<close> is not zero, the remnant velocity is the
  centre-of-mass velocity plus \<^verbatim>\<open>kick_velocity\<close> times a vector of length 1 along
  \<open>r \<times> v\<close>; when \<open>r \<times> v\<close> is zero, the norm by which \<^verbatim>\<open>glm::normalize\<close> divides is 0.
\<close>

lemma compute_remnant_velocity_direction:
  assumes "glm_cross (vsub (position bh1) (position bh2)) (vsub (velocity bh1) (velocity bh2))
             \<noteq> Vec3 0 0 0"
  shows "rem_velocity (compute_remnant bh1 bh2) =
           vadd (sdiv (vadd (smul (mass bh1) (velocity bh1)) (smul (mass bh2) (velocity bh2)))
                      (mass bh1 + mass bh2))
                (smul (kick_velocity (compute_remnant bh1 bh2))
                   (sdiv (glm_cross (vsub (position bh1) (position bh2))
                                    (vsub (velocity bh1) (velocity bh2)))
                         (glm_length (glm_cross (vsub (position bh1) (position bh2))
                                    (vsub (velocity bh1) (velocity bh2))))))"
    and "glm_length (sdiv (glm_cross (vsub (position bh1) (position bh2))
                                     (vsub (velocity bh1) (velocity bh2)))
                          (glm_length (glm_cross (vsub (position bh1) (position bh2))
                                     (vsub (velocity bh1) (velocity bh2))))) = 1"
  using assms
  by (simp_all add: compute_remnant_velocity_eq glm_normalize_sdiv glm_length_unit)

text \<open>The spin of the remnant in binary64 arithmetic, for the masses 0.5 and 0.5000000000000001.\<close>

lemma b64_mass_sum: "b64 (9007199254740993 / 9007199254740992) = 1"
  by (subst b64_scale_up [of _ 52]) (simp_all add: rne_def)

lemma b64_mass_product:
  "b64 (4503599627370497 / 18014398509481984) = 4503599627370497 / 18014398509481984"
  by (subst b64_scale_up [of _ 54]) (simp_all add: rne_def)

lemma b64_four_eta:
  "b64 (4503599627370497 / 4503599627370496) = 4503599627370497 / 4503599627370496"
  by (subst b64_scale_up [of _ 52]) (simp_all add: rne_def)

lemma b64_radicand: "b64 (- (1 / 4503599627370496)) = - (1 / 4503599627370496)"
  by (subst b64_scale_up [of _ 104]) (simp_all add: rne_def)

text \<open>
  Claim C10: whenever \<open>r\<close> and \<open>v\<close> are not parallel, every field of the result of
  \<^verbatim>\<open>compute_remnant\<close> is finite. For the masses 0.5 and 0.5000000000000001 the sum
  rounds to 1 and the symmetric mass ratio \<^verbatim>\<open>eta\<close> to \<open>1 / 4 + 1 / 2 ^ 54\<close>, above the
  bound \<open>1 / 4\<close> that holds in exact arithmetic (\<open>symmetric_ratio_bound\<close>). \<^verbatim>\<open>final_spin\<close>
  takes the square root of \<open>1 - 4 * eta = - 1 / 2 ^ 52\<close> without the guard
  \<^verbatim>\<open>std::max(0.0, ...)\<close> of \<^verbatim>\<open>recoil_kick\<close>: the member \<^verbatim>\<open>spin\<close> of the remnant is a NaN,
  although \<open>r \<times> v = (0, - 5, 0)\<close> is not zero.
\<close>

theorem compute_remnant_spin_nan:
  "0 < mass (near_equal_body (1 / 2) 10 (1 / 8)) \<and>
   0 < mass (near_equal_body (1 / 2 + 1 / 2 ^ 53) (- 10) (- (1 / 8))) \<and>
   glm_cross (vsub (position (near_equal_body (1 / 2) 10 (1 / 8)))
                   (position (near_equal_body (1 / 2 + 1 / 2 ^ 53) (- 10) (- (1 / 8)))))
             (vsub (velocity (near_equal_body (1 / 2) 10 (1 / 8)))
                   (velocity (near_equal_body (1 / 2 + 1 / 2 ^ 53) (- 10) (- (1 / 8)))))
     = Vec3 0 (- 5) 0 \<and>
   compute_remnant_spin64 (near_equal_body (1 / 2) 10 (1 / 8))
     (near_equal_body (1 / 2 + 1 / 2 ^ 53) (- 10) (- (1 / 8))) = None"
  by (simp add: compute_remnant_spin64_def near_equal_body_def Let_def add64_def mul64_def
      div64_def sub64_def b64_1 b64_mass_sum final_spin64_def b64_mass_product b64_four_eta
      b64_radicand)

end
